theory Spec2Isabelle
  imports Main "HOL-Library.Word"
begin

unbundle bit_operations_syntax

section \<open>Schema layer (types.go)\<close>

text \<open>
  Go's \<open>int64\<close> is a 64-bit word, read as two's complement by \<open>sint\<close>.  Go's \<open>int\<close>
  (the parameter-location flags and the HTTP status code) is only compared with constants
  and printed, never computed with, so it is an \<open>int\<close> here.  Go strings are byte
  strings: \<open>string\<close>.
\<close>

type_synonym int64 = "64 word"

text \<open>The constant block \<open>CC_PARAM_TYPE_QS = 1 << iota\<close>, with iota = 0, 1, 2.\<close>

definition CC_PARAM_TYPE_QS :: int where
  "CC_PARAM_TYPE_QS = push_bit 0 1"

definition CC_PARAM_TYPE_PATH :: int where
  "CC_PARAM_TYPE_PATH = push_bit 1 1"

definition CC_PARAM_TYPE_BODY :: int where
  "CC_PARAM_TYPE_BODY = push_bit 2 1"

text \<open>
  The request structs whose fields the dispatcher reads.  Several structs have a field of
  the same name, so fields are written qualified: \<open>RevokeRequest.CertCenterOrderID\<close>.
\<close>

record PutApproverEmailRequest =
  CertCenterOrderID :: int64
  ApproverEmail :: string

record ResendApproverEmailRequest =
  CertCenterOrderID :: int64

record GetOrderRequest =
  CertCenterOrderID :: int64
  IncludeFulfillment :: bool
  IncludeOrderParameters :: bool
  IncludeBillingDetails :: bool
  IncludeContacts :: bool
  IncludeOrganizationInfos :: bool
  IncludeDCVStatus :: bool

record DeleteOrderRequest =
  CertCenterOrderID :: int64

record RevokeRequest =
  CertCenterOrderID :: int64
  RevokeReason :: string
  Certificate :: string

record VulnerabilityAssessmentRequest =
  CertCenterOrderID :: int64
  ServiceStatus :: string
  EmailNotificationLevel :: string

record VulnerabilityAssessmentRescanRequest =
  CertCenterOrderID :: int64

text \<open>\<open>UpdateUserRequest\<close> and \<open>GetUserRequest\<close> are structs that embed \<open>UserData\<close>.\<close>

record UserData =
  UsernameOrUserId :: string
  FullName :: string
  Email :: string
  Username :: string
  Password :: string
  Roles :: "string list"
  Mobile :: string
  Timezone :: string
  Locale :: string
  SpecialProductAvailability :: bool
  Scope :: string
  Active :: bool
  TwoFactorEnabled :: bool
  InsertDate :: int64
  LastUpdateDate :: int64
  LastPasswordChangeDate :: int64

record DeleteUserRequest =
  UsernameOrUserId :: string

text \<open>
  The field \<open>request interface{}\<close> of \<open>apiRequest\<close>: the nil interface, or a pointer to
  a request struct, which may itself be nil (\<open>None\<close>).  The dynamic type is the
  constructor.  Request structs the dispatcher never looks into are kept by their type
  name.
\<close>

datatype request =
    NilRequest
  | Ptr_PutApproverEmailRequest "PutApproverEmailRequest option"
  | Ptr_ResendApproverEmailRequest "ResendApproverEmailRequest option"
  | Ptr_GetOrderRequest "GetOrderRequest option"
  | Ptr_DeleteOrderRequest "DeleteOrderRequest option"
  | Ptr_RevokeRequest "RevokeRequest option"
  | Ptr_VulnerabilityAssessmentRequest "VulnerabilityAssessmentRequest option"
  | Ptr_VulnerabilityAssessmentRescanRequest "VulnerabilityAssessmentRescanRequest option"
  | Ptr_UpdateUserRequest "UserData option"
  | Ptr_GetUserRequest "UserData option"
  | Ptr_DeleteUserRequest "DeleteUserRequest option"
  | Ptr_Other string

text \<open>The \<open>http.Client\<close> that \<open>do\<close> builds: its TLS configuration.\<close>

record http_Client =
  PreferServerCipherSuites :: bool
  MinVersion :: nat

definition VersionTLS12 :: nat where
  "VersionTLS12 = 771"

text \<open>
  The field \<open>result interface{}\<close> of \<open>apiRequest\<close>: the nil interface, or a pointer to
  a result struct, given by the name of the struct and its content.  Result structs are
  kept abstract, as the type \<open>'r\<close>.
\<close>

datatype 'r iface = Nil_result | Ptr_result string 'r

record 'r apiRequest =
  "method" :: string
  httpMethod :: string
  url :: string
  result :: "'r iface"
  request :: request
  client :: "http_Client option"
  statusCode :: int

section \<open>Errors, panics and the outside world\<close>

text \<open>
  An error value is either one a library call returned (kept by its message) or one of
  the three that \<open>do\<close> creates itself.
\<close>

datatype error =
    External string
  | WiredLength
  | StatusError int
  | AuthorizationFailed

datatype panic = InterfaceConversion | NilPointerDereference

text \<open>The verb \<open>%d\<close> of package fmt: decimal digits, with a minus sign when negative.\<close>

function nat_decimal :: "nat \<Rightarrow> string" where
  "nat_decimal n =
     (if n < 10 then [char_of (48 + n)]
      else nat_decimal (n div 10) @ [char_of (48 + n mod 10)])"
  by pat_completeness auto
termination
  by (relation "measure id") auto

declare nat_decimal.simps [simp del]

definition fmt_d :: "int \<Rightarrow> string" where
  "fmt_d i = (if i < 0 then CHR ''-'' # nat_decimal (nat (- i)) else nat_decimal (nat i))"

fun Error :: "error \<Rightarrow> string" where
  "Error (External msg) = msg"
| "Error WiredLength = ''CertCenter API: Returned content with wired length''"
| "Error (StatusError code) = ''CertCenter API: Returned with Status '' @ fmt_d code"
| "Error AuthorizationFailed =
     ''CertCenter API: Autorization failed. Used bearer token is invalid or does not have the proper rights''"

text \<open>
  What \<open>http.NewRequest\<close> returns after \<open>do\<close> has set the two headers, and what
  \<open>client.Do\<close> returns: \<open>ContentLength\<close> is the declared length (-1 when the
  length is not declared), \<open>Body\<close> is what \<open>ioutil.ReadAll\<close> reads from the body: the
  bytes and the read error.
\<close>

record http_Request =
  Method :: string
  URL :: string
  Payload :: "string option"
  Header :: "(string \<times> string) list"

record http_Response =
  StatusCode :: int
  ContentLength :: int64
  Body :: "string \<times> error option"

text \<open>
  The calls \<open>do\<close> makes outside handler.go and the process-wide bearer token are
  parameters of the model: the token, the zero value \<open>new(T)\<close> points to for a result
  struct \<open>T\<close>, \<open>query.Values(v)\<close> of the package
  \<open>query\<close> (its error, or the string that \<open>Encode()\<close> yields on its values),
  \<open>json.Marshal\<close>, the error of \<open>http.NewRequest\<close> for a method, URL and body,
  \<open>client.Do\<close>, and \<open>json.Unmarshal(data, &req.result)\<close> with the interface value it
  leaves in \<open>req.result\<close>.
\<close>

record 'r env =
  Bearer :: string
  new_result :: "string \<Rightarrow> 'r"
  query_Values :: "request \<Rightarrow> error + string"
  json_Marshal :: "request \<Rightarrow> error + string"
  http_NewRequest :: "string \<Rightarrow> string \<Rightarrow> string option \<Rightarrow> error option"
  client_Do :: "http_Request \<Rightarrow> http_Response option \<times> error option"
  json_Unmarshal :: "string \<Rightarrow> 'r iface \<Rightarrow> error option \<times> 'r iface"

text \<open>
  A run of \<open>do\<close> is observed by the library calls it makes, in order, by how it ends (it
  returns an error value, nil being \<open>None\<close>, or it panics) and by the \<open>apiRequest\<close> it
  leaves behind.
\<close>

datatype event =
    QueryValues request
  | JsonMarshal request
  | Println string
  | NewRequest string string "string option"
  | ClientDo http_Request "http_Response option" "error option"
  | ReadAll
  | JsonUnmarshal string
  | BodyClose

datatype exit = Returned "error option" | Panicked panic

record 'r outcome =
  exit :: exit
  after :: "'r apiRequest"
  events :: "event list"

section \<open>Dispatcher (handler.go)\<close>

text \<open>
  \<open>req.request.(*T)\<close> followed by a field access: the type assertion panics unless the
  dynamic type is \<open>*T\<close>, the field access panics on a nil pointer.
\<close>

definition deref_PutApproverEmailRequest :: "request \<Rightarrow> panic + PutApproverEmailRequest" where
  "deref_PutApproverEmailRequest rq =
     (case rq of
        Ptr_PutApproverEmailRequest (Some r) \<Rightarrow> Inr r
      | Ptr_PutApproverEmailRequest None \<Rightarrow> Inl NilPointerDereference
      | _ \<Rightarrow> Inl InterfaceConversion)"

definition deref_ResendApproverEmailRequest :: "request \<Rightarrow> panic + ResendApproverEmailRequest" where
  "deref_ResendApproverEmailRequest rq =
     (case rq of
        Ptr_ResendApproverEmailRequest (Some r) \<Rightarrow> Inr r
      | Ptr_ResendApproverEmailRequest None \<Rightarrow> Inl NilPointerDereference
      | _ \<Rightarrow> Inl InterfaceConversion)"

definition deref_GetOrderRequest :: "request \<Rightarrow> panic + GetOrderRequest" where
  "deref_GetOrderRequest rq =
     (case rq of
        Ptr_GetOrderRequest (Some r) \<Rightarrow> Inr r
      | Ptr_GetOrderRequest None \<Rightarrow> Inl NilPointerDereference
      | _ \<Rightarrow> Inl InterfaceConversion)"

definition deref_DeleteOrderRequest :: "request \<Rightarrow> panic + DeleteOrderRequest" where
  "deref_DeleteOrderRequest rq =
     (case rq of
        Ptr_DeleteOrderRequest (Some r) \<Rightarrow> Inr r
      | Ptr_DeleteOrderRequest None \<Rightarrow> Inl NilPointerDereference
      | _ \<Rightarrow> Inl InterfaceConversion)"

definition deref_RevokeRequest :: "request \<Rightarrow> panic + RevokeRequest" where
  "deref_RevokeRequest rq =
     (case rq of
        Ptr_RevokeRequest (Some r) \<Rightarrow> Inr r
      | Ptr_RevokeRequest None \<Rightarrow> Inl NilPointerDereference
      | _ \<Rightarrow> Inl InterfaceConversion)"

definition deref_VulnerabilityAssessmentRequest ::
  "request \<Rightarrow> panic + VulnerabilityAssessmentRequest" where
  "deref_VulnerabilityAssessmentRequest rq =
     (case rq of
        Ptr_VulnerabilityAssessmentRequest (Some r) \<Rightarrow> Inr r
      | Ptr_VulnerabilityAssessmentRequest None \<Rightarrow> Inl NilPointerDereference
      | _ \<Rightarrow> Inl InterfaceConversion)"

definition deref_UpdateUserRequest :: "request \<Rightarrow> panic + UserData" where
  "deref_UpdateUserRequest rq =
     (case rq of
        Ptr_UpdateUserRequest (Some r) \<Rightarrow> Inr r
      | Ptr_UpdateUserRequest None \<Rightarrow> Inl NilPointerDereference
      | _ \<Rightarrow> Inl InterfaceConversion)"

definition deref_GetUserRequest :: "request \<Rightarrow> panic + UserData" where
  "deref_GetUserRequest rq =
     (case rq of
        Ptr_GetUserRequest (Some r) \<Rightarrow> Inr r
      | Ptr_GetUserRequest None \<Rightarrow> Inl NilPointerDereference
      | _ \<Rightarrow> Inl InterfaceConversion)"

definition deref_DeleteUserRequest :: "request \<Rightarrow> panic + DeleteUserRequest" where
  "deref_DeleteUserRequest rq =
     (case rq of
        Ptr_DeleteUserRequest (Some r) \<Rightarrow> Inr r
      | Ptr_DeleteUserRequest None \<Rightarrow> Inl NilPointerDereference
      | _ \<Rightarrow> Inl InterfaceConversion)"

text \<open>
  The first part of \<open>do\<close> (lines 17 to 99) shapes the request.  It ends in one of two
  ways: it falls through to \<open>http.NewRequest\<close> with the body \<open>postData\<close> (\<open>proceed\<close>),
  or it leaves \<open>do\<close> by an early return or a panic (\<open>leave\<close>).
\<close>

record 'r shaped =
  shaped_req :: "'r apiRequest"
  postData :: "string option"
  shaped_events :: "event list"
  left :: "exit option"

definition proceed :: "'r apiRequest \<Rightarrow> string option \<Rightarrow> event list \<Rightarrow> 'r shaped" where
  "proceed req pd evs = \<lparr>shaped_req = req, postData = pd, shaped_events = evs, left = None\<rparr>"

definition leave :: "exit \<Rightarrow> 'r apiRequest \<Rightarrow> event list \<Rightarrow> 'r shaped" where
  "leave x req evs = \<lparr>shaped_req = req, postData = None, shaped_events = evs, left = Some x\<rparr>"

definition rawURL :: string where
  "rawURL = ''https://api.certcenter.com/rest/v1/''"

definition new_Client :: http_Client where
  "new_Client = \<lparr>PreferServerCipherSuites = True, MinVersion = VersionTLS12\<rparr>"

text \<open>\<open>case CC_PARAM_TYPE_QS\<close>\<close>

definition case_QS :: "'r env \<Rightarrow> 'r apiRequest \<Rightarrow> 'r shaped" where
  "case_QS env req =
     (case query_Values env (request req) of
        Inl err \<Rightarrow> leave (Returned (Some err)) req [QueryValues (request req)]
      | Inr v \<Rightarrow> proceed (req\<lparr>url := url req @ ''?'' @ v\<rparr>) None [QueryValues (request req)])"

text \<open>\<open>json.Marshal(req.request)\<close> and \<open>postData = strings.NewReader(string(d))\<close>\<close>

definition marshal_body :: "'r env \<Rightarrow> 'r apiRequest \<Rightarrow> 'r shaped" where
  "marshal_body env req =
     (case json_Marshal env (request req) of
        Inl err \<Rightarrow> leave (Returned (Some err)) req [JsonMarshal (request req)]
      | Inr d \<Rightarrow> proceed req (Some d) [JsonMarshal (request req)])"

text \<open>\<open>case CC_PARAM_TYPE_BODY\<close>\<close>

definition case_BODY :: "'r env \<Rightarrow> 'r apiRequest \<Rightarrow> 'r shaped" where
  "case_BODY env req = marshal_body env (req\<lparr>httpMethod := ''POST''\<rparr>)"

text \<open>\<open>case CC_PARAM_TYPE_PATH\<close>\<close>

definition case_PATH :: "string \<Rightarrow> 'r apiRequest \<Rightarrow> 'r shaped" where
  "case_PATH apiMethod req =
     (if apiMethod = ''ApproverEmail'' then
        (case deref_ResendApproverEmailRequest (request req) of
           Inl p \<Rightarrow> leave (Panicked p) (req\<lparr>httpMethod := ''POST''\<rparr>) []
         | Inr r \<Rightarrow>
             proceed (req\<lparr>httpMethod := ''POST'',
                          url := url req @ ''/'' @
                            fmt_d (sint (ResendApproverEmailRequest.CertCenterOrderID r))\<rparr>)
               None [])
      else if apiMethod = ''Order'' then
        (case deref_DeleteOrderRequest (request req) of
           Inl p \<Rightarrow> leave (Panicked p) (req\<lparr>httpMethod := ''DELETE''\<rparr>) []
         | Inr r \<Rightarrow>
             proceed (req\<lparr>httpMethod := ''DELETE'',
                          url := url req @ ''/'' @
                            fmt_d (sint (DeleteOrderRequest.CertCenterOrderID r))\<rparr>)
               None [])
      else if apiMethod = ''VulnerabilityAssessment'' then
        (case deref_VulnerabilityAssessmentRequest (request req) of
           Inl p \<Rightarrow> leave (Panicked p) req []
         | Inr r \<Rightarrow>
             proceed (req\<lparr>url := url req @ ''/'' @
                            fmt_d (sint (VulnerabilityAssessmentRequest.CertCenterOrderID r))\<rparr>)
               None [])
      else if apiMethod = ''User'' then
        (case deref_GetUserRequest (request req) of
           Inl p \<Rightarrow> leave (Panicked p) req []
         | Inr r \<Rightarrow>
             proceed (req\<lparr>url := url req @ ''/'' @ UserData.UsernameOrUserId r\<rparr>) None [])
      else if apiMethod = ''DeleteUser'' then
        (case deref_DeleteUserRequest (request req) of
           Inl p \<Rightarrow> leave (Panicked p) (req\<lparr>httpMethod := ''DELETE''\<rparr>) []
         | Inr r \<Rightarrow>
             proceed (req\<lparr>httpMethod := ''DELETE'',
                          url := rawURL @ ''User/'' @ DeleteUserRequest.UsernameOrUserId r\<rparr>)
               None [Println (DeleteUserRequest.UsernameOrUserId r)])
      else proceed req None [])"

text \<open>\<open>case CC_PARAM_TYPE_QS | CC_PARAM_TYPE_PATH\<close>\<close>

definition case_QS_PATH :: "'r env \<Rightarrow> string \<Rightarrow> 'r apiRequest \<Rightarrow> 'r shaped" where
  "case_QS_PATH env apiMethod req =
     (if apiMethod = ''ApproverEmail'' then
        (case deref_PutApproverEmailRequest (request req) of
           Inl p \<Rightarrow> leave (Panicked p) (req\<lparr>httpMethod := ''PUT''\<rparr>) []
         | Inr r \<Rightarrow>
             proceed (req\<lparr>httpMethod := ''PUT'',
                          url := url req @ ''/'' @
                            fmt_d (sint (PutApproverEmailRequest.CertCenterOrderID r)) @
                            ''?ApproverEmail='' @ PutApproverEmailRequest.ApproverEmail r\<rparr>)
               None [])
      else if apiMethod = ''Order'' then
        (case query_Values env (request req) of
           Inl err \<Rightarrow> leave (Returned (Some err)) req [QueryValues (request req)]
         | Inr v \<Rightarrow>
             (case deref_GetOrderRequest (request req) of
                Inl p \<Rightarrow> leave (Panicked p) req [QueryValues (request req)]
              | Inr r \<Rightarrow>
                  proceed (req\<lparr>url := url req @ ''/'' @
                                 fmt_d (sint (GetOrderRequest.CertCenterOrderID r)) @ ''?'' @ v\<rparr>)
                    None [QueryValues (request req)]))
      else proceed req None [])"

text \<open>\<open>case CC_PARAM_TYPE_BODY | CC_PARAM_TYPE_PATH\<close>\<close>

definition case_BODY_PATH :: "'r env \<Rightarrow> string \<Rightarrow> 'r apiRequest \<Rightarrow> 'r shaped" where
  "case_BODY_PATH env apiMethod req =
     (if apiMethod = ''Revoke'' then
        (case deref_RevokeRequest (request req) of
           Inl p \<Rightarrow> leave (Panicked p) (req\<lparr>httpMethod := ''DELETE''\<rparr>) []
         | Inr r \<Rightarrow>
             marshal_body env
               (req\<lparr>httpMethod := ''DELETE'',
                    url := url req @ ''/'' @ fmt_d (sint (RevokeRequest.CertCenterOrderID r))\<rparr>))
      else if apiMethod = ''User'' then
        (case deref_UpdateUserRequest (request req) of
           Inl p \<Rightarrow> leave (Panicked p) (req\<lparr>httpMethod := ''POST''\<rparr>) []
         | Inr r \<Rightarrow>
             marshal_body env
               (req\<lparr>httpMethod := ''POST'',
                    url := url req @ ''/'' @ UserData.UsernameOrUserId r,
                    request := Ptr_UpdateUserRequest (Some (r\<lparr>UserData.UsernameOrUserId := []\<rparr>))\<rparr>))
      else marshal_body env req)"

definition do_shape :: "'r env \<Rightarrow> string \<Rightarrow> int list \<Rightarrow> 'r apiRequest \<Rightarrow> 'r shaped" where
  "do_shape env apiMethod ParamType req0 =
     (let req = req0\<lparr>httpMethod := ''GET'', method := apiMethod, url := rawURL @ apiMethod,
                     client := Some new_Client\<rparr>
      in case ParamType of
           [] \<Rightarrow> proceed req None []
         | paramType # _ \<Rightarrow>
             if paramType = CC_PARAM_TYPE_QS then case_QS env req
             else if paramType = CC_PARAM_TYPE_BODY then case_BODY env req
             else if paramType = CC_PARAM_TYPE_PATH then case_PATH apiMethod req
             else if paramType = CC_PARAM_TYPE_QS OR CC_PARAM_TYPE_PATH
               then case_QS_PATH env apiMethod req
             else if paramType = CC_PARAM_TYPE_BODY OR CC_PARAM_TYPE_PATH
               then case_BODY_PATH env apiMethod req
             else proceed req None [])"

text \<open>
  The last part of \<open>do\<close> (lines 112 to 137), for the response \<open>client.Do\<close> gave: the
  length check, \<open>ioutil.ReadAll\<close>, the status switch and \<open>json.Unmarshal\<close> (\<open>do_decode\<close>,
  lines 133 to 137).  The deferred \<open>response.Body.Close()\<close> runs when \<open>do\<close> returns.
\<close>

definition do_decode :: "'r env \<Rightarrow> 'r apiRequest \<Rightarrow> string \<Rightarrow> 'r outcome" where
  "do_decode env req data =
     (case json_Unmarshal env data (result req) of
        (err, res) \<Rightarrow>
          \<lparr>exit = Returned err, after = req\<lparr>result := res\<rparr>,
           events = [ReadAll, JsonUnmarshal data, BodyClose]\<rparr>)"

definition do_receive :: "'r env \<Rightarrow> 'r apiRequest \<Rightarrow> http_Response \<Rightarrow> 'r outcome" where
  "do_receive env req response =
     (if 2 ^ 24 < sint (ContentLength response) \<or> ContentLength response = 0 then
        \<lparr>exit = Returned (Some WiredLength), after = req, events = [BodyClose]\<rparr>
      else
        (case Body response of
           (data, Some err) \<Rightarrow>
             \<lparr>exit = Returned (Some err), after = req, events = [ReadAll, BodyClose]\<rparr>
         | (data, None) \<Rightarrow>
             (let req = req\<lparr>statusCode := StatusCode response\<rparr> in
              if StatusCode response \<noteq> 200 then
                (if StatusCode response = 401 then
                   \<lparr>exit = Returned (Some AuthorizationFailed), after = req,
                    events = [ReadAll, BodyClose]\<rparr>
                 else if StatusCode response = 417 then do_decode env req data
                 else if StatusCode response = 406 then do_decode env req data
                 else
                   \<lparr>exit = Returned (Some (StatusError (StatusCode response))), after = req,
                    events = [ReadAll, BodyClose]\<rparr>)
              else do_decode env req data)))"

text \<open>
  The middle part of \<open>do\<close> (lines 101 to 110): \<open>http.NewRequest\<close>, the two headers
  (\<open>new_Request\<close> is the request with both set), \<open>client.Do\<close>.  Its error is never looked at; \<open>defer response.Body.Close()\<close> reads
  \<open>response.Body\<close> at once, which panics when \<open>response\<close> is nil.
\<close>

definition new_Request :: "'r env \<Rightarrow> string \<Rightarrow> string \<Rightarrow> string option \<Rightarrow> http_Request" where
  "new_Request env m u pd =
     \<lparr>Method = m, URL = u, Payload = pd,
      Header = [(''Authorization'', ''Bearer '' @ Bearer env),
                (''Content-Type'', ''application/json; charset=utf8'')]\<rparr>"

definition do_send :: "'r env \<Rightarrow> 'r apiRequest \<Rightarrow> string option \<Rightarrow> 'r outcome" where
  "do_send env req pd =
     (case http_NewRequest env (httpMethod req) (url req) pd of
        Some err \<Rightarrow>
          \<lparr>exit = Returned (Some err), after = req,
           events = [NewRequest (httpMethod req) (url req) pd]\<rparr>
      | None \<Rightarrow>
          (let rq = new_Request env (httpMethod req) (url req) pd
           in case client_Do env rq of
                (None, err) \<Rightarrow>
                  \<lparr>exit = Panicked NilPointerDereference, after = req,
                   events = [NewRequest (httpMethod req) (url req) pd, ClientDo rq None err]\<rparr>
              | (Some response, err) \<Rightarrow>
                  (let out = do_receive env req response in
                   out\<lparr>events := [NewRequest (httpMethod req) (url req) pd,
                                   ClientDo rq (Some response) err] @ events out\<rparr>)))"

definition do :: "'r env \<Rightarrow> string \<Rightarrow> int list \<Rightarrow> 'r apiRequest \<Rightarrow> 'r outcome" where
  "do env apiMethod ParamType req =
     (let s = do_shape env apiMethod ParamType req in
      case left s of
        Some x \<Rightarrow> \<lparr>exit = x, after = shaped_req s, events = shaped_events s\<rparr>
      | None \<Rightarrow>
          (let out = do_send env (shaped_req s) (postData s) in
           out\<lparr>events := shaped_events s @ events out\<rparr>))"

section \<open>Operation functions\<close>

text \<open>\<open>checkErr\<close> prints an error that is not nil.\<close>

definition checkErr :: "error option \<Rightarrow> event list" where
  "checkErr err = (case err of None \<Rightarrow> [] | Some e \<Rightarrow> [Println (Error e)])"

text \<open>
  \<open>new(apiRequest)\<close> with the fields \<open>result\<close> and \<open>request\<close> assigned; every other field
  has its zero value.
\<close>

definition new_apiRequest :: "'r iface \<Rightarrow> request \<Rightarrow> 'r apiRequest" where
  "new_apiRequest res rq =
     \<lparr>method = [], httpMethod = [], url = [], result = res, request = rq, client = None,
      statusCode = 0\<rparr>"

text \<open>
  The type assertion \<open>req.result.(*T)\<close> of the return statement: it holds when the
  interface value is a pointer to a \<open>T\<close>, and panics otherwise.
\<close>

definition result_is :: "string \<Rightarrow> 'r iface \<Rightarrow> bool" where
  "result_is T v = (case v of Nil_result \<Rightarrow> False | Ptr_result T' x \<Rightarrow> T' = T)"

text \<open>
  Every operation function has the same body: build the \<open>apiRequest\<close> with
  \<open>req.result = new(T)\<close>, call \<open>do\<close>, call \<open>checkErr\<close>, and return
  \<open>req.result.(*T)\<close> and the error.  A panic of \<open>do\<close> goes through it; the type
  assertion of the return statement panics when \<open>do\<close> has left another value in
  \<open>req.result\<close>.
\<close>

definition operation ::
  "'r env \<Rightarrow> string \<Rightarrow> request \<Rightarrow> string \<Rightarrow> int list \<Rightarrow> 'r outcome" where
  "operation env T rq apiMethod ParamType =
     (let out = do env apiMethod ParamType
                  (new_apiRequest (Ptr_result T (new_result env T)) rq) in
      case exit out of
        Panicked p \<Rightarrow> out
      | Returned err \<Rightarrow>
          (if result_is T (result (after out))
             then out\<lparr>events := events out @ checkErr err\<rparr>
           else out\<lparr>exit := Panicked InterfaceConversion,
                    events := events out @ checkErr err\<rparr>))"

definition Profile :: "'r env \<Rightarrow> 'r outcome" where
  "Profile env = operation env ''ProfileResult'' NilRequest ''Profile'' []"

definition PutApproverEmail :: "'r env \<Rightarrow> PutApproverEmailRequest option \<Rightarrow> 'r outcome" where
  "PutApproverEmail env ptr =
     operation env ''PutApproverEmailResult'' (Ptr_PutApproverEmailRequest ptr)
       ''ApproverEmail'' [CC_PARAM_TYPE_QS OR CC_PARAM_TYPE_PATH]"

definition ResendApproverEmail :: "'r env \<Rightarrow> ResendApproverEmailRequest option \<Rightarrow> 'r outcome" where
  "ResendApproverEmail env ptr =
     operation env ''ResendApproverEmailResult'' (Ptr_ResendApproverEmailRequest ptr)
       ''ApproverEmail'' [CC_PARAM_TYPE_PATH]"

definition GetOrder :: "'r env \<Rightarrow> GetOrderRequest option \<Rightarrow> 'r outcome" where
  "GetOrder env ptr =
     operation env ''GetOrderResult'' (Ptr_GetOrderRequest ptr)
       ''Order'' [CC_PARAM_TYPE_QS OR CC_PARAM_TYPE_PATH]"

definition DeleteOrder :: "'r env \<Rightarrow> DeleteOrderRequest option \<Rightarrow> 'r outcome" where
  "DeleteOrder env ptr =
     operation env ''DeleteOrderResult'' (Ptr_DeleteOrderRequest ptr)
       ''Order'' [CC_PARAM_TYPE_PATH]"

definition Revoke :: "'r env \<Rightarrow> RevokeRequest option \<Rightarrow> 'r outcome" where
  "Revoke env ptr =
     operation env ''RevokeResult'' (Ptr_RevokeRequest ptr)
       ''Revoke'' [CC_PARAM_TYPE_BODY OR CC_PARAM_TYPE_PATH]"

definition VulnerabilityAssessment ::
  "'r env \<Rightarrow> VulnerabilityAssessmentRequest option \<Rightarrow> 'r outcome" where
  "VulnerabilityAssessment env ptr =
     operation env ''VulnerabilityAssessmentResult'' (Ptr_VulnerabilityAssessmentRequest ptr)
       ''VulnerabilityAssessment'' [CC_PARAM_TYPE_BODY]"

definition VulnerabilityAssessmentRescan ::
  "'r env \<Rightarrow> VulnerabilityAssessmentRescanRequest option \<Rightarrow> 'r outcome" where
  "VulnerabilityAssessmentRescan env ptr =
     operation env ''VulnerabilityAssessmentRescanResult''
       (Ptr_VulnerabilityAssessmentRescanRequest ptr)
       ''VulnerabilityAssessment'' [CC_PARAM_TYPE_PATH]"

section \<open>Observations of a run\<close>

text \<open>
  Read off the list of library calls: the requests handed to \<open>client.Do\<close>, the byte
  strings handed to \<open>json.Unmarshal\<close>, the method, URL and body handed to
  \<open>http.NewRequest\<close>, and the request objects handed to \<open>json.Marshal\<close>.
\<close>

fun sent :: "event list \<Rightarrow> http_Request list" where
  "sent [] = []"
| "sent (ClientDo rq response err # es) = rq # sent es"
| "sent (e # es) = sent es"

fun decoded :: "event list \<Rightarrow> string list" where
  "decoded [] = []"
| "decoded (JsonUnmarshal data # es) = data # decoded es"
| "decoded (e # es) = decoded es"

fun built :: "event list \<Rightarrow> (string \<times> string \<times> string option) list" where
  "built [] = []"
| "built (NewRequest m u pd # es) = (m, u, pd) # built es"
| "built (e # es) = built es"

fun marshalled :: "event list \<Rightarrow> request list" where
  "marshalled [] = []"
| "marshalled (JsonMarshal rq # es) = rq # marshalled es"
| "marshalled (e # es) = marshalled es"

text \<open>The calls the shaping part of \<open>do\<close> can make.\<close>

fun shaping_event :: "event \<Rightarrow> bool" where
  "shaping_event (QueryValues rq) = True"
| "shaping_event (JsonMarshal rq) = True"
| "shaping_event (Println s) = True"
| "shaping_event e = False"

section \<open>The query string of an order lookup\<close>

text \<open>
  Package \<open>github.com/certcenter/goCertCenter/query\<close>, whose \<open>query.Values\<close> the
  dispatcher calls, is not among the sources: only its caller \<open>do\<close> and the \<open>url\<close> tags
  of the request structs in types.go are.  The three definitions of this section stand
  for it, for a \<open>GetOrderRequest\<close>, as the spec describes it.
\<close>

text \<open>
  Modelled from the spec: the parameter the missing \<open>query.Values\<close> gives for one
  boolean field of a request.  In the spec's example the flag that is set is written
  \<open>includeFulfillment=true\<close> and the flags that are not set give no parameter.
\<close>

definition flag_Values :: "string \<Rightarrow> bool \<Rightarrow> (string \<times> string) list" where
  "flag_Values name b = (if b then [(name, ''true'')] else [])"

text \<open>
  Modelled from the spec: the parameters the missing \<open>query.Values\<close> gives for a
  \<open>GetOrderRequest\<close>.  The spec says the URL carries "a path-appended identifier
  (e.g., order ID or username) and/or a query string built from the request object's
  fields", and its example for the order lookup is
  \<open>GET /rest/v1/Order/<id>?includeFulfillment=true\<close>: the order identifier is in the
  path and not in the query string, which is built from the flags of the request, each
  named by its \<open>url\<close> tag in types.go, in the order of the struct.
\<close>

definition GetOrderRequest_Values :: "GetOrderRequest \<Rightarrow> (string \<times> string) list" where
  "GetOrderRequest_Values r =
     flag_Values ''includeFulfillment'' (IncludeFulfillment r) @
     flag_Values ''includeOrderParameters'' (IncludeOrderParameters r) @
     flag_Values ''includeBillingDetails'' (IncludeBillingDetails r) @
     flag_Values ''includeContacts'' (IncludeContacts r) @
     flag_Values ''includeOrganizationInfos'' (IncludeOrganizationInfos r) @
     flag_Values ''includeDCVStatus'' (IncludeDCVStatus r)"

text \<open>
  Modelled from the spec: \<open>Encode\<close> on the values the missing \<open>query.Values\<close> returns,
  the query string as in the spec's example \<open>?includeFulfillment=true\<close>: each parameter
  as \<open>key=value\<close>, joined by \<open>&\<close>.  Keys and values here are letters, which a query
  string carries unescaped.
\<close>

fun Encode :: "(string \<times> string) list \<Rightarrow> string" where
  "Encode [] = []"
| "Encode [(k, v)] = k @ ''='' @ v"
| "Encode ((k, v) # kvs) = k @ ''='' @ v @ ''&'' @ Encode kvs"

section \<open>Worked examples: an environment and inputs\<close>

text \<open>
  A fixed environment for the examples: \<open>client.Do\<close> gives the same answer to every
  request, \<open>http.NewRequest\<close> and \<open>json.Marshal\<close> never fail, and \<open>json.Unmarshal\<close>
  rejects the empty input and sets the interface value to nil on \<open>null\<close>, as Go's
  does, and otherwise stores the bytes in the result struct.
\<close>

definition canned :: "http_Response option \<times> error option \<Rightarrow> string env" where
  "canned answer =
     \<lparr>Bearer = ''token'',
      new_result = (\<lambda>T. []),
      query_Values = (\<lambda>rq. Inr ''k=v''),
      json_Marshal = (\<lambda>rq. Inr ''{}''),
      http_NewRequest = (\<lambda>m u pd. None),
      client_Do = (\<lambda>rq. answer),
      json_Unmarshal = (\<lambda>data res.
        if data = [] then (Some (External ''unexpected end of JSON input''), res)
        else if data = ''null'' then (None, Nil_result)
        else (None, case res of Nil_result \<Rightarrow> Nil_result
                              | Ptr_result T x \<Rightarrow> Ptr_result T data))\<rparr>"

definition ok_200 :: http_Response where
  "ok_200 = \<lparr>StatusCode = 200, ContentLength = 2, Body = (''{}'', None)\<rparr>"

text \<open>The same environment, with the query string of an order lookup as modelled above.\<close>

definition canned_query :: "string env" where
  "canned_query =
     (canned (Some ok_200, None))
       \<lparr>query_Values := (\<lambda>rq. case rq of
            Ptr_GetOrderRequest (Some r) \<Rightarrow> Inr (Encode (GetOrderRequest_Values r))
          | _ \<Rightarrow> Inr [])\<rparr>"

text \<open>A round trip that fails: no response, and an error.\<close>

definition refused :: "http_Response option \<times> error option" where
  "refused = (None, Some (External ''dial tcp: connection refused''))"

text \<open>The request that \<open>Profile\<close> sends in this environment.\<close>

definition Profile_request :: http_Request where
  "Profile_request =
     \<lparr>Method = ''GET'', URL = ''https://api.certcenter.com/rest/v1/Profile'', Payload = None,
      Header = [(''Authorization'', ''Bearer token''),
                (''Content-Type'', ''application/json; charset=utf8'')]\<rparr>"

text \<open>
  Responses: one declared empty, two of undeclared length (\<open>ContentLength = -1\<close>, as for
  a chunked body), one empty and one of more than \<open>2 ^ 24\<close> bytes, and responses with
  status 406 and 401, with and without a body.
\<close>

definition empty_declared :: http_Response where
  "empty_declared = \<lparr>StatusCode = 200, ContentLength = 0, Body = ([], None)\<rparr>"

definition empty_chunked :: http_Response where
  "empty_chunked = \<lparr>StatusCode = 200, ContentLength = - 1, Body = ([], None)\<rparr>"

definition oversized_chunked :: http_Response where
  "oversized_chunked =
     \<lparr>StatusCode = 200, ContentLength = - 1,
      Body = (''{}'' @ replicate 16777215 (CHR '' ''), None)\<rparr>"

definition not_acceptable :: http_Response where
  "not_acceptable = \<lparr>StatusCode = 406, ContentLength = 2, Body = (''{}'', None)\<rparr>"

definition not_acceptable_empty :: http_Response where
  "not_acceptable_empty = \<lparr>StatusCode = 406, ContentLength = 0, Body = ([], None)\<rparr>"

definition unauthorized :: http_Response where
  "unauthorized = \<lparr>StatusCode = 401, ContentLength = 12, Body = (''Unauthorized'', None)\<rparr>"

definition unauthorized_empty :: http_Response where
  "unauthorized_empty = \<lparr>StatusCode = 401, ContentLength = 0, Body = ([], None)\<rparr>"

text \<open>Request objects.\<close>

definition order_1234 :: GetOrderRequest where
  "order_1234 =
     \<lparr>GetOrderRequest.CertCenterOrderID = 1234, IncludeFulfillment = True,
      IncludeOrderParameters = False, IncludeBillingDetails = False, IncludeContacts = False,
      IncludeOrganizationInfos = False, IncludeDCVStatus = False\<rparr>"

definition resend_1234 :: ResendApproverEmailRequest where
  "resend_1234 = \<lparr>ResendApproverEmailRequest.CertCenterOrderID = 1234\<rparr>"

definition put_1234 :: PutApproverEmailRequest where
  "put_1234 =
     \<lparr>PutApproverEmailRequest.CertCenterOrderID = 1234, ApproverEmail = ''admin@example.com''\<rparr>"

definition revoke_1234 :: RevokeRequest where
  "revoke_1234 =
     \<lparr>RevokeRequest.CertCenterOrderID = 1234, RevokeReason = [], Certificate = []\<rparr>"

definition rescan_1234 :: VulnerabilityAssessmentRescanRequest where
  "rescan_1234 = \<lparr>VulnerabilityAssessmentRescanRequest.CertCenterOrderID = 1234\<rparr>"

definition delete_jdoe :: DeleteUserRequest where
  "delete_jdoe = \<lparr>DeleteUserRequest.UsernameOrUserId = ''jdoe''\<rparr>"

text \<open>The \<open>apiRequest\<close> objects that operation functions build for them.\<close>

definition Profile_apiRequest :: "string apiRequest" where
  "Profile_apiRequest = new_apiRequest (Ptr_result ''ProfileResult'' []) NilRequest"

definition resend_apiRequest :: "string apiRequest" where
  "resend_apiRequest =
     new_apiRequest (Ptr_result ''ResendApproverEmailResult'' [])
       (Ptr_ResendApproverEmailRequest (Some resend_1234))"

definition put_apiRequest :: "string apiRequest" where
  "put_apiRequest =
     new_apiRequest (Ptr_result ''PutApproverEmailResult'' [])
       (Ptr_PutApproverEmailRequest (Some put_1234))"

definition delete_apiRequest :: "string apiRequest" where
  "delete_apiRequest =
     new_apiRequest (Ptr_result ''DeleteUserResult'' [])
       (Ptr_DeleteUserRequest (Some delete_jdoe))"

definition reissue_request :: "string apiRequest" where
  "reissue_request =
     new_apiRequest (Ptr_result ''ReissueResult'' []) (Ptr_Other ''ReissueRequest'')"

text \<open>A response with status 200 whose body is the JSON value \<open>null\<close>.\<close>

definition null_200 :: http_Response where
  "null_200 = \<lparr>StatusCode = 200, ContentLength = 4, Body = (''null'', None)\<rparr>"

section \<open>Properties of the parts of \<open>do\<close>\<close>

lemma flags [simp]:
  "CC_PARAM_TYPE_QS = 1" "CC_PARAM_TYPE_PATH = 2" "CC_PARAM_TYPE_BODY = 4"
  by (simp_all add: CC_PARAM_TYPE_QS_def CC_PARAM_TYPE_PATH_def CC_PARAM_TYPE_BODY_def)

lemma nat_decimal_1234: "nat_decimal 1234 = ''1234''"
  by code_simp

lemma fmt_d_1234: "fmt_d 1234 = ''1234''"
  by (simp add: fmt_d_def nat_decimal_1234)

lemma shaped_simps [simp]:
  "shaped_events (proceed req pd evs) = evs" "shaped_req (proceed req pd evs) = req"
  "postData (proceed req pd evs) = pd" "left (proceed req pd evs) = None"
  "shaped_events (leave x req evs) = evs" "shaped_req (leave x req evs) = req"
  "postData (leave x req evs) = None" "left (leave x req evs) = Some x"
  by (simp_all add: proceed_def leave_def)

subsection \<open>The observations distribute over a run\<close>

lemma decoded_append: "decoded (xs @ ys) = decoded xs @ decoded ys"
  by (induction xs rule: decoded.induct) auto

lemma sent_append: "sent (xs @ ys) = sent xs @ sent ys"
  by (induction xs rule: sent.induct) auto

lemma built_append: "built (xs @ ys) = built xs @ built ys"
  by (induction xs rule: built.induct) auto

lemma marshalled_append: "marshalled (xs @ ys) = marshalled xs @ marshalled ys"
  by (induction xs rule: marshalled.induct) auto

lemma shaping_not_ClientDo: "list_all shaping_event evs \<Longrightarrow> ClientDo rq ro err \<notin> set evs"
  by (induction evs) auto

lemma shaping_decoded: "list_all shaping_event evs \<Longrightarrow> decoded evs = []"
  by (induction evs rule: decoded.induct) auto

lemma shaping_sent: "list_all shaping_event evs \<Longrightarrow> sent evs = []"
  by (induction evs rule: sent.induct) auto

lemma shaping_built: "list_all shaping_event evs \<Longrightarrow> built evs = []"
  by (induction evs rule: built.induct) auto

subsection \<open>Shaping: lines 17 to 99\<close>

text \<open>
  Whatever the flags and the operation name, shaping calls only \<open>query.Values\<close>,
  \<open>json.Marshal\<close> and \<open>fmt.Println\<close>, and leaves the result object alone.
\<close>

lemma marshal_body_events: "list_all shaping_event (shaped_events (marshal_body env req))"
  by (simp add: marshal_body_def split: sum.splits)

lemma marshal_body_result: "result (shaped_req (marshal_body env req)) = result req"
  by (simp add: marshal_body_def split: sum.splits)

lemma marshal_body_marshalled:
  "marshalled (shaped_events (marshal_body env req)) = [request req]
   \<and> url (shaped_req (marshal_body env req)) = url req
   \<and> httpMethod (shaped_req (marshal_body env req)) = httpMethod req"
  by (simp add: marshal_body_def split: sum.splits)

lemma case_QS_events: "list_all shaping_event (shaped_events (case_QS env req))"
  by (simp add: case_QS_def split: sum.splits)

lemma case_QS_result: "result (shaped_req (case_QS env req)) = result req"
  by (simp add: case_QS_def split: sum.splits)

lemma case_BODY_events: "list_all shaping_event (shaped_events (case_BODY env req))"
  by (simp add: case_BODY_def marshal_body_events)

lemma case_BODY_result: "result (shaped_req (case_BODY env req)) = result req"
  by (simp add: case_BODY_def marshal_body_result)

lemma case_PATH_events: "list_all shaping_event (shaped_events (case_PATH m req))"
  by (simp add: case_PATH_def split: sum.splits)

lemma case_PATH_result: "result (shaped_req (case_PATH m req)) = result req"
  by (simp add: case_PATH_def split: sum.splits)

lemma case_QS_PATH_events: "list_all shaping_event (shaped_events (case_QS_PATH env m req))"
  by (simp add: case_QS_PATH_def split: sum.splits)

lemma case_QS_PATH_result: "result (shaped_req (case_QS_PATH env m req)) = result req"
  by (simp add: case_QS_PATH_def split: sum.splits)

lemma case_BODY_PATH_events:
  "list_all shaping_event (shaped_events (case_BODY_PATH env m req))"
  by (simp add: case_BODY_PATH_def marshal_body_events split: sum.splits)

lemma case_BODY_PATH_result: "result (shaped_req (case_BODY_PATH env m req)) = result req"
  by (simp add: case_BODY_PATH_def marshal_body_result split: sum.splits)

lemma do_shape_events: "list_all shaping_event (shaped_events (do_shape env m p req))"
  by (simp add: do_shape_def Let_def case_QS_events case_BODY_events case_PATH_events
      case_QS_PATH_events case_BODY_PATH_events split: list.splits)

lemma do_shape_result: "result (shaped_req (do_shape env m p req)) = result req"
  by (simp add: do_shape_def Let_def case_QS_result case_BODY_result case_PATH_result
      case_QS_PATH_result case_BODY_PATH_result split: list.splits)

text \<open>The calls for which the switch changes nothing, and those left to \<open>json.Marshal\<close>.\<close>

lemma do_shape_unlisted:
  assumes "(p \<noteq> CC_PARAM_TYPE_QS \<and> p \<noteq> CC_PARAM_TYPE_BODY \<and> p \<noteq> CC_PARAM_TYPE_PATH
         \<and> p \<noteq> CC_PARAM_TYPE_QS OR CC_PARAM_TYPE_PATH
         \<and> p \<noteq> CC_PARAM_TYPE_BODY OR CC_PARAM_TYPE_PATH)
      \<or> (p = CC_PARAM_TYPE_PATH
         \<and> apiMethod \<notin> set [''ApproverEmail'', ''Order'', ''VulnerabilityAssessment'', ''User'',
                            ''DeleteUser''])
      \<or> (p = CC_PARAM_TYPE_QS OR CC_PARAM_TYPE_PATH
         \<and> apiMethod \<notin> set [''ApproverEmail'', ''Order''])"
  shows "do_shape env apiMethod (p # ps) req =
     proceed (req\<lparr>httpMethod := ''GET'', method := apiMethod,
                  url := ''https://api.certcenter.com/rest/v1/'' @ apiMethod,
                  client := Some new_Client\<rparr>) None []"
  using assms
  by (auto simp: do_shape_def case_PATH_def case_QS_PATH_def rawURL_def)

lemma do_shape_unlisted_BODY_PATH:
  assumes "p = CC_PARAM_TYPE_BODY OR CC_PARAM_TYPE_PATH"
    and "apiMethod \<notin> set [''Revoke'', ''User'']"
  shows "do_shape env apiMethod (p # ps) req =
     marshal_body env (req\<lparr>httpMethod := ''GET'', method := apiMethod,
                  url := ''https://api.certcenter.com/rest/v1/'' @ apiMethod,
                  client := Some new_Client\<rparr>)"
  using assms
  by (auto simp: do_shape_def case_BODY_PATH_def rawURL_def)

lemma GetOrder_shape:
  assumes "query_Values env (Ptr_GetOrderRequest (Some r)) = Inr v"
  shows "do_shape env ''Order'' [CC_PARAM_TYPE_QS OR CC_PARAM_TYPE_PATH]
           (new_apiRequest res (Ptr_GetOrderRequest (Some r))) =
         proceed \<lparr>method = ''Order'', httpMethod = ''GET'',
                  url = ''https://api.certcenter.com/rest/v1/Order/'' @
                     fmt_d (sint (GetOrderRequest.CertCenterOrderID r)) @ ''?'' @ v,
                  result = res, request = Ptr_GetOrderRequest (Some r),
                  client = Some new_Client, statusCode = 0\<rparr>
           None [QueryValues (Ptr_GetOrderRequest (Some r))]"
  using assms
  by (simp add: do_shape_def case_QS_PATH_def deref_GetOrderRequest_def rawURL_def
      new_apiRequest_def)

subsection \<open>Receiving: lines 112 to 137\<close>

lemma do_receive_no_ClientDo: "ClientDo rq ro err \<notin> set (events (do_receive env req response))"
  by (auto simp: do_receive_def do_decode_def Let_def split: prod.splits option.splits)

lemma do_receive_sent: "sent (events (do_receive env req response)) = []"
  by (auto simp: do_receive_def do_decode_def Let_def split: prod.splits option.splits)

lemma do_receive_built: "built (events (do_receive env req response)) = []"
  by (auto simp: do_receive_def do_decode_def Let_def split: prod.splits option.splits)

lemma do_receive_marshalled: "marshalled (events (do_receive env req response)) = []"
  by (auto simp: do_receive_def do_decode_def Let_def split: prod.splits option.splits)

lemma do_receive_wired:
  "2 ^ 24 < sint (ContentLength response) \<or> ContentLength response = 0 \<Longrightarrow>
   do_receive env req response =
     \<lparr>exit = Returned (Some WiredLength), after = req, events = [BodyClose]\<rparr>"
  by (simp add: do_receive_def)

subsection \<open>Sending: lines 101 to 110\<close>

lemma do_send_ClientDo:
  assumes "ClientDo rq ro err \<in> set (events (do_send env req pd))"
  shows "http_NewRequest env (httpMethod req) (url req) pd = None
       \<and> rq = new_Request env (httpMethod req) (url req) pd
       \<and> client_Do env rq = (ro, err)"
  using assms do_receive_no_ClientDo [of _ _ _ env req]
  by (auto simp: do_send_def Let_def split: option.splits prod.splits)

lemma do_send_response:
  assumes "ClientDo rq (Some response) err \<in> set (events (do_send env req pd))"
  shows "do_send env req pd =
           (do_receive env req response)
             \<lparr>events := [NewRequest (httpMethod req) (url req) pd, ClientDo rq (Some response) err]
                @ events (do_receive env req response)\<rparr>"
  using assms do_receive_no_ClientDo [of _ _ _ env req]
  by (auto simp: do_send_def Let_def split: option.splits prod.splits)

lemma do_send_no_response:
  assumes "ClientDo rq None err \<in> set (events (do_send env req pd))"
  shows "exit (do_send env req pd) = Panicked NilPointerDereference"
  using assms do_receive_no_ClientDo [of _ _ _ env req]
  by (auto simp: do_send_def Let_def split: option.splits prod.splits)

lemma do_send_built: "built (events (do_send env req pd)) = [(httpMethod req, url req, pd)]"
  by (auto simp: do_send_def Let_def do_receive_built split: option.splits prod.splits)

lemma do_send_marshalled: "marshalled (events (do_send env req pd)) = []"
  by (auto simp: do_send_def Let_def do_receive_marshalled split: option.splits prod.splits)

lemma do_send_sent:
  "http_NewRequest env (httpMethod req) (url req) pd = None \<Longrightarrow>
   sent (events (do_send env req pd)) = [new_Request env (httpMethod req) (url req) pd]"
  by (auto simp: do_send_def Let_def do_receive_sent split: option.splits prod.splits)

lemma do_send_after_url:
  "url (after (do_send env req pd)) = url req
   \<and> httpMethod (after (do_send env req pd)) = httpMethod req"
  by (auto simp: do_send_def do_receive_def do_decode_def Let_def
      split: option.splits prod.splits)

lemma do_send_no_InterfaceConversion:
  "exit (do_send env req pd) \<noteq> Panicked InterfaceConversion"
  by (auto simp: do_send_def do_receive_def do_decode_def Let_def
      split: option.splits prod.splits)

subsection \<open>The whole of \<open>do\<close>\<close>

lemma do_proceeds:
  assumes "do_shape env m p req = proceed req' pd evs"
  shows "do env m p req = (do_send env req' pd)\<lparr>events := evs @ events (do_send env req' pd)\<rparr>"
  using assms by (simp add: do_def Let_def)

lemma do_leaves:
  assumes "do_shape env m p req = leave x req' evs"
  shows "do env m p req = \<lparr>exit = x, after = req', events = evs\<rparr>"
  using assms by (simp add: do_def Let_def)

text \<open>
  When shaping falls through, \<open>do\<close> builds one request with the shaped method, URL and
  body, and sends it if \<open>http.NewRequest\<close> accepts it.
\<close>

lemma do_proceeds_issue:
  assumes "do_shape env m p req = proceed req' pd evs"
  shows "built (events (do env m p req)) = [(httpMethod req', url req', pd)]
       \<and> (http_NewRequest env (httpMethod req') (url req') pd = None \<longrightarrow>
            sent (events (do env m p req)) = [new_Request env (httpMethod req') (url req') pd])"
proof -
  from do_shape_events [of env m p req] assms have "list_all shaping_event evs"
    by simp
  then have "built evs = []" "sent evs = []"
    by (simp_all add: shaping_built shaping_sent)
  then show ?thesis
    by (simp add: do_proceeds [OF assms] built_append sent_append do_send_built do_send_sent)
qed

lemma do_shaped_after:
  "url (after (do env m p req)) = url (shaped_req (do_shape env m p req))
   \<and> httpMethod (after (do env m p req)) = httpMethod (shaped_req (do_shape env m p req))"
  by (simp add: do_def Let_def do_send_after_url split: option.splits)

lemma do_shaped_marshalled:
  "marshalled (events (do env m p req)) = marshalled (shaped_events (do_shape env m p req))"
  by (simp add: do_def Let_def marshalled_append do_send_marshalled split: option.splits)

lemma do_ClientDo:
  assumes "ClientDo rq ro err \<in> set (events (do env m p req))"
  shows "left (do_shape env m p req) = None
       \<and> ClientDo rq ro err \<in> set (events (do_send env (shaped_req (do_shape env m p req))
             (postData (do_shape env m p req))))"
  using assms shaping_not_ClientDo [OF do_shape_events, of rq ro err env m p req]
  by (auto simp: do_def Let_def split: option.splits)

text \<open>
  A run in which \<open>client.Do\<close> gave a response ends as the receiving part ends on that
  response, started on the result object of the caller; nothing is decoded before.
\<close>

lemma do_response:
  assumes "ClientDo rq (Some response) err \<in> set (events (do env m p req))"
  shows "\<exists>req' pre. result req' = result req \<and> decoded pre = []
       \<and> exit (do env m p req) = exit (do_receive env req' response)
       \<and> after (do env m p req) = after (do_receive env req' response)
       \<and> events (do env m p req) = pre @ events (do_receive env req' response)"
proof -
  let ?s = "do_shape env m p req"
  let ?pre = "shaped_events ?s @
     [NewRequest (httpMethod (shaped_req ?s)) (url (shaped_req ?s)) (postData ?s),
      ClientDo rq (Some response) err]"
  from do_ClientDo [OF assms] have l: "left ?s = None"
    and c: "ClientDo rq (Some response) err
              \<in> set (events (do_send env (shaped_req ?s) (postData ?s)))"
    by simp_all
  have d: "decoded ?pre = []"
    by (simp add: decoded_append shaping_decoded [OF do_shape_events])
  have "exit (do env m p req) = exit (do_receive env (shaped_req ?s) response)
      \<and> after (do env m p req) = after (do_receive env (shaped_req ?s) response)
      \<and> events (do env m p req) = ?pre @ events (do_receive env (shaped_req ?s) response)"
    using l do_send_response [OF c] by (simp add: do_def Let_def)
  with d do_shape_result [of env m p req] show ?thesis by blast
qed

lemma do_InterfaceConversion:
  assumes "exit (do env m p req) = Panicked InterfaceConversion"
  shows "left (do_shape env m p req) = Some (Panicked InterfaceConversion)"
  using assms do_send_no_InterfaceConversion
  by (auto simp: do_def Let_def split: option.splits)

subsection \<open>Operation functions\<close>

lemma operation_after: "after (operation env T rq m p) =
   after (do env m p (new_apiRequest (Ptr_result T (new_result env T)) rq))"
  by (simp add: operation_def Let_def split: exit.splits)

lemma operation_built: "built (events (operation env T rq m p)) =
   built (events (do env m p (new_apiRequest (Ptr_result T (new_result env T)) rq)))"
  by (simp add: operation_def Let_def built_append checkErr_def split: exit.splits option.splits)

lemma operation_sent: "sent (events (operation env T rq m p)) =
   sent (events (do env m p (new_apiRequest (Ptr_result T (new_result env T)) rq)))"
  by (simp add: operation_def Let_def sent_append checkErr_def split: exit.splits option.splits)

lemma operation_marshalled: "marshalled (events (operation env T rq m p)) =
   marshalled (events (do env m p (new_apiRequest (Ptr_result T (new_result env T)) rq)))"
  by (simp add: operation_def Let_def marshalled_append checkErr_def
      split: exit.splits option.splits)

subsection \<open>The worked environment\<close>

lemma do_Profile_canned:
  "do (canned (ro, err)) ''Profile'' [] Profile_apiRequest =
     (case ro of
        None \<Rightarrow>
          \<lparr>exit = Panicked NilPointerDereference,
           after = \<lparr>method = ''Profile'', httpMethod = ''GET'',
                    url = ''https://api.certcenter.com/rest/v1/Profile'',
                  result = Ptr_result ''ProfileResult'' [],
                    request = NilRequest, client = Some new_Client, statusCode = 0\<rparr>,
           events = [NewRequest ''GET'' ''https://api.certcenter.com/rest/v1/Profile'' None,
                     ClientDo Profile_request None err]\<rparr>
      | Some response \<Rightarrow>
          (let out = do_receive (canned (ro, err))
                 \<lparr>method = ''Profile'', httpMethod = ''GET'',
                  url = ''https://api.certcenter.com/rest/v1/Profile'',
                  result = Ptr_result ''ProfileResult'' [],
                  request = NilRequest, client = Some new_Client, statusCode = 0\<rparr> response
           in out\<lparr>events := [NewRequest ''GET'' ''https://api.certcenter.com/rest/v1/Profile'' None,
                     ClientDo Profile_request (Some response) err] @ events out\<rparr>))"
  by (simp add: do_def do_shape_def do_send_def new_Request_def new_apiRequest_def canned_def
      Profile_request_def Profile_apiRequest_def rawURL_def Let_def split: option.splits)

lemma canned_query_order:
  "query_Values canned_query (Ptr_GetOrderRequest (Some r)) =
     Inr (Encode (GetOrderRequest_Values r))"
  by (simp add: canned_query_def)

text \<open>
  On the code alone: \<open>GetOrder\<close> builds one GET request without a body, and sends it if
  \<open>http.NewRequest\<close> accepts it.  Its URL is the endpoint, the identifier as a path
  segment, a question mark and whatever \<open>query.Values\<close> encodes for the request object.
\<close>

lemma GetOrder_builds:
  assumes "query_Values env (Ptr_GetOrderRequest (Some r)) = Inr v"
  shows "built (events (GetOrder env (Some r))) =
       [(''GET'',
         ''https://api.certcenter.com/rest/v1/Order/'' @
           fmt_d (sint (GetOrderRequest.CertCenterOrderID r)) @ ''?'' @ v,
         None)]
     \<and> (http_NewRequest env ''GET''
           (''https://api.certcenter.com/rest/v1/Order/'' @
              fmt_d (sint (GetOrderRequest.CertCenterOrderID r)) @ ''?'' @ v) None = None \<longrightarrow>
         sent (events (GetOrder env (Some r))) =
           [new_Request env ''GET''
              (''https://api.certcenter.com/rest/v1/Order/'' @
                 fmt_d (sint (GetOrderRequest.CertCenterOrderID r)) @ ''?'' @ v) None])"
  using do_proceeds_issue [OF GetOrder_shape [OF assms],
      of "Ptr_result ''GetOrderResult'' (new_result env ''GetOrderResult'')"]
  by (simp add: GetOrder_def operation_built operation_sent)

text \<open>
  The type assertion of the return statement: on a 200 response whose body is \<open>null\<close>,
  \<open>json.Unmarshal\<close> leaves the nil interface in \<open>req.result\<close> and \<open>Profile\<close> panics.
\<close>

lemma Profile_null_body_panics:
  "exit (Profile (canned (Some null_200, None))) = Panicked InterfaceConversion"
proof -
  have "do_receive (canned (Some null_200, None)) req null_200 =
      \<lparr>exit = Returned None, after = req\<lparr>statusCode := 200, result := Nil_result\<rparr>,
       events = [ReadAll, JsonUnmarshal ''null'', BodyClose]\<rparr>" for req :: "string apiRequest"
    by (simp add: do_receive_def do_decode_def null_200_def canned_def)
  then have "exit (do (canned (Some null_200, None)) ''Profile'' [] Profile_apiRequest) =
        Returned None
      \<and> result (after (do (canned (Some null_200, None)) ''Profile'' [] Profile_apiRequest)) =
        Nil_result"
    by (simp add: do_Profile_canned Let_def)
  moreover have "new_result (canned (Some null_200, None)) ''ProfileResult'' = []"
    by (simp add: canned_def)
  ultimately show ?thesis
    by (simp add: Profile_def operation_def Let_def result_is_def Profile_apiRequest_def)
qed

section \<open>The failure modes of the dispatcher\<close>

text \<open>
  Claim C1.  The specification says that a call whose HTTP round trip fails with a
  transport error returns that error as it is, without crashing.  The code never looks at
  the error of \<open>client.Do\<close>: in every run in which \<open>client.Do\<close> gives no response, \<open>do\<close>
  ends in a nil pointer dereference (at \<open>defer response.Body.Close()\<close>) and returns
  nothing, whatever the flags, the operation and the request.
\<close>

theorem do_transport_error_panics:
  assumes "ClientDo rq None err \<in> set (events (do env apiMethod ParamType req))"
  shows "exit (do env apiMethod ParamType req) = Panicked NilPointerDereference"
proof -
  let ?s = "do_shape env apiMethod ParamType req"
  from do_ClientDo [OF assms] have l: "left ?s = None"
    and c: "ClientDo rq None err \<in> set (events (do_send env (shaped_req ?s) (postData ?s)))"
    by simp_all
  from l do_send_no_response [OF c] show ?thesis
    by (simp add: do_def Let_def)
qed

theorem do_transport_error_panics_witness:
  "ClientDo Profile_request None (Some (External ''dial tcp: connection refused''))
     \<in> set (events (do (canned refused) ''Profile'' [] Profile_apiRequest))
   \<and> exit (do (canned refused) ''Profile'' [] Profile_apiRequest)
       = Panicked NilPointerDereference"
proof -
  have h: "ClientDo Profile_request None (Some (External ''dial tcp: connection refused''))
     \<in> set (events (do (canned refused) ''Profile'' [] Profile_apiRequest))"
    by (simp add: refused_def do_Profile_canned)
  from h do_transport_error_panics [OF h] show ?thesis by simp
qed

text \<open>
  Claim C2, as amended.  The check of line 112 reads the declared length of the response,
  \<open>response.ContentLength\<close>, not the body: when the declared length is above \<open>2 ^ 24\<close> or
  is zero, \<open>do\<close> returns the length error, nothing is handed to \<open>json.Unmarshal\<close> and the
  result object is as the caller gave it.
\<close>

theorem do_wired_length_rejected:
  assumes "ClientDo rq (Some response) err \<in> set (events (do env apiMethod ParamType req))"
    and "2 ^ 24 < sint (ContentLength response) \<or> ContentLength response = 0"
  shows "exit (do env apiMethod ParamType req) = Returned (Some WiredLength)
       \<and> decoded (events (do env apiMethod ParamType req)) = []
       \<and> result (after (do env apiMethod ParamType req)) = result req"
proof -
  from do_response [OF assms(1)] obtain req' pre where
    r: "result req' = result req" "decoded pre = []"
      "exit (do env apiMethod ParamType req) = exit (do_receive env req' response)"
      "after (do env apiMethod ParamType req) = after (do_receive env req' response)"
      "events (do env apiMethod ParamType req) = pre @ events (do_receive env req' response)"
    by blast
  from r show ?thesis
    by (simp add: do_receive_wired [OF assms(2)] decoded_append)
qed

theorem do_wired_length_rejected_witness:
  "ClientDo Profile_request (Some empty_declared) None
     \<in> set (events (do (canned (Some empty_declared, None)) ''Profile'' []
          Profile_apiRequest))
   \<and> (2 ^ 24 < sint (ContentLength empty_declared) \<or> ContentLength empty_declared = 0)
   \<and> exit (do (canned (Some empty_declared, None)) ''Profile'' [] Profile_apiRequest)
       = Returned (Some WiredLength)
   \<and> decoded (events (do (canned (Some empty_declared, None)) ''Profile'' []
        Profile_apiRequest)) = []"
proof -
  have h: "ClientDo Profile_request (Some empty_declared) None
     \<in> set (events (do (canned (Some empty_declared, None)) ''Profile'' []
          Profile_apiRequest))"
    by (simp add: do_Profile_canned Let_def)
  have l: "2 ^ 24 < sint (ContentLength empty_declared) \<or> ContentLength empty_declared = 0"
    by (simp add: empty_declared_def)
  from h l do_wired_length_rejected [OF h l] show ?thesis by simp
qed

text \<open>
  Claim C2 as the specification states it, about the length of the body, fails on a body
  of undeclared length: an empty one is handed to \<open>json.Unmarshal\<close>, and one of more than
  \<open>2 ^ 24\<close> bytes is decoded and \<open>do\<close> returns no error.
\<close>

theorem do_undeclared_length_counterexample:
  "length (fst (Body empty_chunked)) = 0
   \<and> decoded (events (do (canned (Some empty_chunked, None)) ''Profile'' []
        Profile_apiRequest)) = [[]]
   \<and> 2 ^ 24 < length (fst (Body oversized_chunked))
   \<and> exit (do (canned (Some oversized_chunked, None)) ''Profile'' []
        Profile_apiRequest) = Returned None
   \<and> decoded (events (do (canned (Some oversized_chunked, None)) ''Profile'' []
        Profile_apiRequest)) = [fst (Body oversized_chunked)]"
proof -
  have e: "events (do_receive (canned (Some empty_chunked, None)) req empty_chunked) =
      [ReadAll, JsonUnmarshal [], BodyClose]" for req :: "string apiRequest"
    by (simp add: do_receive_def do_decode_def empty_chunked_def canned_def)
  have o: "exit (do_receive (canned (Some oversized_chunked, None)) req oversized_chunked) =
        Returned None
      \<and> events (do_receive (canned (Some oversized_chunked, None)) req oversized_chunked) =
        [ReadAll, JsonUnmarshal (fst (Body oversized_chunked)), BodyClose]"
    for req :: "string apiRequest"
    by (simp add: do_receive_def do_decode_def oversized_chunked_def canned_def)
  have l: "2 ^ 24 < length (fst (Body oversized_chunked))"
    by (simp add: oversized_chunked_def)
  have z: "length (fst (Body empty_chunked)) = 0"
    by (simp add: empty_chunked_def)
  from e o l z show ?thesis
    by (simp add: do_Profile_canned Let_def)
qed

text \<open>
  Claim C3, as amended.  A response with status 406 or 417 never gives a status error:
  \<open>do\<close> goes on as for status 200.  It returns the length error when the declared length
  is zero or above \<open>2 ^ 24\<close>, else the read error when reading the body fails, else what
  \<open>json.Unmarshal\<close> returns for the body and the result object of the caller, which is no
  error when decoding succeeds.
\<close>

theorem do_406_417_not_a_status_error:
  assumes "ClientDo rq (Some response) err \<in> set (events (do env apiMethod ParamType req))"
    and "StatusCode response = 406 \<or> StatusCode response = 417"
  shows "exit (do env apiMethod ParamType req) =
     (if 2 ^ 24 < sint (ContentLength response) \<or> ContentLength response = 0
        then Returned (Some WiredLength)
      else case Body response of
             (data, Some e) \<Rightarrow> Returned (Some e)
           | (data, None) \<Rightarrow> Returned (fst (json_Unmarshal env data (result req))))"
proof -
  from do_response [OF assms(1)] obtain req' where
    r: "result req' = result req"
      "exit (do env apiMethod ParamType req) = exit (do_receive env req' response)"
    by blast
  from assms(2) r(1) have "exit (do_receive env req' response) =
     (if 2 ^ 24 < sint (ContentLength response) \<or> ContentLength response = 0
        then Returned (Some WiredLength)
      else case Body response of
             (data, Some e) \<Rightarrow> Returned (Some e)
           | (data, None) \<Rightarrow> Returned (fst (json_Unmarshal env data (result req))))"
    by (auto simp: do_receive_def do_decode_def Let_def split: prod.splits option.splits)
  with r(2) show ?thesis by simp
qed

theorem do_406_417_not_a_status_error_witness:
  "ClientDo Profile_request (Some not_acceptable) None
     \<in> set (events (do (canned (Some not_acceptable, None)) ''Profile'' []
          Profile_apiRequest))
   \<and> (StatusCode not_acceptable = 406 \<or> StatusCode not_acceptable = 417)
   \<and> exit (do (canned (Some not_acceptable, None)) ''Profile'' [] Profile_apiRequest)
       = Returned None"
proof -
  have h: "ClientDo Profile_request (Some not_acceptable) None
     \<in> set (events (do (canned (Some not_acceptable, None)) ''Profile'' []
          Profile_apiRequest))"
    by (simp add: do_Profile_canned Let_def)
  have s: "StatusCode not_acceptable = 406 \<or> StatusCode not_acceptable = 417"
    by (simp add: not_acceptable_def)
  from h s do_406_417_not_a_status_error [OF h s] show ?thesis
    by (simp add: not_acceptable_def canned_def new_apiRequest_def Profile_apiRequest_def)
qed

text \<open>
  Claim C3 as the specification states it, no error even when the body is empty, fails: a
  406 response declared empty gives the length error.
\<close>

theorem do_406_empty_body_counterexample:
  "StatusCode not_acceptable_empty = 406 \<and> fst (Body not_acceptable_empty) = []
   \<and> ClientDo Profile_request (Some not_acceptable_empty) None
       \<in> set (events (do (canned (Some not_acceptable_empty, None)) ''Profile'' []
            Profile_apiRequest))
   \<and> exit (do (canned (Some not_acceptable_empty, None)) ''Profile'' []
        Profile_apiRequest) = Returned (Some WiredLength)"
proof -
  have "ContentLength not_acceptable_empty = 0"
    by (simp add: not_acceptable_empty_def)
  then show ?thesis
    by (simp add: do_Profile_canned Let_def do_receive_wired) (simp add: not_acceptable_empty_def)
qed

text \<open>
  Claim C4, as amended.  A response with status 401 always gives an error, nothing is
  handed to \<open>json.Unmarshal\<close> and the result object is as the caller gave it.  The error
  is the authorization failure unless an earlier check fails: the length check (declared
  length zero or above \<open>2 ^ 24\<close>) gives the length error, a failed read gives the read
  error.
\<close>

theorem do_401_is_an_error_without_decoding:
  assumes "ClientDo rq (Some response) err \<in> set (events (do env apiMethod ParamType req))"
    and "StatusCode response = 401"
  shows "exit (do env apiMethod ParamType req) =
           Returned (Some
             (if 2 ^ 24 < sint (ContentLength response) \<or> ContentLength response = 0
                then WiredLength
              else case snd (Body response) of
                     Some e \<Rightarrow> e
                   | None \<Rightarrow> AuthorizationFailed))
       \<and> decoded (events (do env apiMethod ParamType req)) = []
       \<and> result (after (do env apiMethod ParamType req)) = result req"
proof -
  from do_response [OF assms(1)] obtain req' pre where
    r: "result req' = result req" "decoded pre = []"
      "exit (do env apiMethod ParamType req) = exit (do_receive env req' response)"
      "after (do env apiMethod ParamType req) = after (do_receive env req' response)"
      "events (do env apiMethod ParamType req) = pre @ events (do_receive env req' response)"
    by blast
  from assms(2) have "exit (do_receive env req' response) =
           Returned (Some
             (if 2 ^ 24 < sint (ContentLength response) \<or> ContentLength response = 0
                then WiredLength
              else case snd (Body response) of
                     Some e \<Rightarrow> e
                   | None \<Rightarrow> AuthorizationFailed))
      \<and> decoded (events (do_receive env req' response)) = []
      \<and> result (after (do_receive env req' response)) = result req'"
    by (auto simp: do_receive_def Let_def split: prod.splits option.splits)
  with r show ?thesis by (simp add: decoded_append)
qed

theorem do_401_is_an_error_without_decoding_witness:
  "ClientDo Profile_request (Some unauthorized) None
     \<in> set (events (do (canned (Some unauthorized, None)) ''Profile'' []
          Profile_apiRequest))
   \<and> StatusCode unauthorized = 401
   \<and> exit (do (canned (Some unauthorized, None)) ''Profile'' [] Profile_apiRequest)
       = Returned (Some AuthorizationFailed)
   \<and> decoded (events (do (canned (Some unauthorized, None)) ''Profile'' []
        Profile_apiRequest)) = []"
proof -
  have h: "ClientDo Profile_request (Some unauthorized) None
     \<in> set (events (do (canned (Some unauthorized, None)) ''Profile'' []
          Profile_apiRequest))"
    by (simp add: do_Profile_canned Let_def)
  have s: "StatusCode unauthorized = 401"
    by (simp add: unauthorized_def)
  from h s do_401_is_an_error_without_decoding [OF h s] show ?thesis
    by (simp add: unauthorized_def)
qed

text \<open>
  Claim C4 as the specification states it, always the authorization failure, fails: a
  401 response declared empty gives the length error.
\<close>

theorem do_401_empty_body_counterexample:
  "StatusCode unauthorized_empty = 401
   \<and> ClientDo Profile_request (Some unauthorized_empty) None
       \<in> set (events (do (canned (Some unauthorized_empty, None)) ''Profile'' []
            Profile_apiRequest))
   \<and> exit (do (canned (Some unauthorized_empty, None)) ''Profile'' []
        Profile_apiRequest) = Returned (Some WiredLength)
   \<and> WiredLength \<noteq> AuthorizationFailed"
proof -
  have "ContentLength unauthorized_empty = 0"
    by (simp add: unauthorized_empty_def)
  then show ?thesis
    by (simp add: do_Profile_canned Let_def do_receive_wired) (simp add: unauthorized_empty_def)
qed

section \<open>The routing table of the dispatcher\<close>

text \<open>
  Claim C5.  \<open>GetOrder\<close> with a request that has an order identifier, \<open>IncludeFulfillment\<close>
  set and no other flag set builds one GET request without a body, whose URL is the
  endpoint \<open>/rest/v1/Order\<close>, the identifier in decimal as a path segment, and the
  query string \<open>includeFulfillment=true\<close> alone; that is the request sent once
  \<open>http.NewRequest\<close> accepts it.  The method, the path, the question mark and the
  absence of a body are those of the code; the query string is the one the spec gives
  for \<open>query.Values\<close>, which the environment is assumed to follow.
\<close>

theorem GetOrder_includeFulfillment:
  assumes "query_Values env (Ptr_GetOrderRequest (Some r)) =
             Inr (Encode (GetOrderRequest_Values r))"
    and "IncludeFulfillment r"
    and "\<not> IncludeOrderParameters r \<and> \<not> IncludeBillingDetails r \<and> \<not> IncludeContacts r
         \<and> \<not> IncludeOrganizationInfos r \<and> \<not> IncludeDCVStatus r"
  shows "built (events (GetOrder env (Some r))) =
       [(''GET'',
         ''https://api.certcenter.com/rest/v1/Order/'' @
           fmt_d (sint (GetOrderRequest.CertCenterOrderID r)) @ ''?includeFulfillment=true'',
         None)]
     \<and> (http_NewRequest env ''GET''
           (''https://api.certcenter.com/rest/v1/Order/'' @
              fmt_d (sint (GetOrderRequest.CertCenterOrderID r)) @ ''?includeFulfillment=true'')
           None = None \<longrightarrow>
         sent (events (GetOrder env (Some r))) =
           [new_Request env ''GET''
              (''https://api.certcenter.com/rest/v1/Order/'' @
                 fmt_d (sint (GetOrderRequest.CertCenterOrderID r)) @
                 ''?includeFulfillment=true'')
              None])"
proof -
  from assms(2,3) have "Encode (GetOrderRequest_Values r) = ''includeFulfillment=true''"
    by (simp add: GetOrderRequest_Values_def flag_Values_def)
  with assms(1) have "query_Values env (Ptr_GetOrderRequest (Some r)) =
      Inr ''includeFulfillment=true''"
    by simp
  from GetOrder_builds [OF this] show ?thesis
    by simp
qed

theorem GetOrder_includeFulfillment_witness:
  "query_Values canned_query (Ptr_GetOrderRequest (Some order_1234)) =
     Inr (Encode (GetOrderRequest_Values order_1234))
   \<and> IncludeFulfillment order_1234
   \<and> (\<not> IncludeOrderParameters order_1234 \<and> \<not> IncludeBillingDetails order_1234
      \<and> \<not> IncludeContacts order_1234 \<and> \<not> IncludeOrganizationInfos order_1234
      \<and> \<not> IncludeDCVStatus order_1234)
   \<and> built (events (GetOrder canned_query (Some order_1234))) =
       [(''GET'', ''https://api.certcenter.com/rest/v1/Order/1234?includeFulfillment=true'',
         None)]
   \<and> sent (events (GetOrder canned_query (Some order_1234))) =
       [\<lparr>Method = ''GET'',
         URL = ''https://api.certcenter.com/rest/v1/Order/1234?includeFulfillment=true'',
         Payload = None,
         Header = [(''Authorization'', ''Bearer token''),
                   (''Content-Type'', ''application/json; charset=utf8'')]\<rparr>]"
proof -
  have q: "query_Values canned_query (Ptr_GetOrderRequest (Some order_1234)) =
     Inr (Encode (GetOrderRequest_Values order_1234))"
    by (rule canned_query_order)
  have f: "IncludeFulfillment order_1234"
    by (simp add: order_1234_def)
  have n: "\<not> IncludeOrderParameters order_1234 \<and> \<not> IncludeBillingDetails order_1234
      \<and> \<not> IncludeContacts order_1234 \<and> \<not> IncludeOrganizationInfos order_1234
      \<and> \<not> IncludeDCVStatus order_1234"
    by (simp add: order_1234_def)
  have a: "http_NewRequest canned_query m u pd = None" for m u pd
    by (simp add: canned_query_def canned_def)
  have b: "Bearer canned_query = ''token''"
    by (simp add: canned_query_def canned_def)
  have i: "fmt_d (sint (GetOrderRequest.CertCenterOrderID order_1234)) = ''1234''"
    by (simp add: order_1234_def fmt_d_1234)
  from q f n GetOrder_includeFulfillment [OF q f n] show ?thesis
    by (simp add: a b i new_Request_def)
qed

text \<open>
  Claim C6.  The specification says that with the flags BODY and PATH every field used
  for the path is cleared before the request object is serialized.  The branch for
  \<open>User\<close> does so (\<open>UpdateUser_clears_UsernameOrUserId\<close> below); the branch for \<open>Revoke\<close>
  does not: the request handed to \<open>json.Marshal\<close> is the one the caller gave, with the
  \<open>CertCenterOrderID\<close> that is also in the path.
\<close>

theorem Revoke_serializes_CertCenterOrderID:
  "marshalled (events (Revoke env (Some r))) = [Ptr_RevokeRequest (Some r)]
   \<and> url (after (Revoke env (Some r))) =
       ''https://api.certcenter.com/rest/v1/Revoke/'' @
         fmt_d (sint (RevokeRequest.CertCenterOrderID r))"
proof -
  let ?req = "new_apiRequest (Ptr_result ''RevokeResult'' (new_result env ''RevokeResult''))
      (Ptr_RevokeRequest (Some r))"
  have "do_shape env ''Revoke'' [CC_PARAM_TYPE_BODY OR CC_PARAM_TYPE_PATH] ?req =
      marshal_body env
        \<lparr>method = ''Revoke'', httpMethod = ''DELETE'',
         url = ''https://api.certcenter.com/rest/v1/Revoke/'' @
           fmt_d (sint (RevokeRequest.CertCenterOrderID r)),
         result = Ptr_result ''RevokeResult'' (new_result env ''RevokeResult''),
         request = Ptr_RevokeRequest (Some r),
         client = Some new_Client, statusCode = 0\<rparr>"
    by (simp add: do_shape_def case_BODY_PATH_def deref_RevokeRequest_def rawURL_def
        new_apiRequest_def)
  then show ?thesis
    by (simp add: Revoke_def operation_marshalled operation_after do_shaped_after
        do_shaped_marshalled marshal_body_marshalled)
qed

theorem Revoke_serializes_CertCenterOrderID_witness:
  "marshalled (events (Revoke (canned (Some ok_200, None)) (Some revoke_1234))) =
     [Ptr_RevokeRequest
        (Some \<lparr>RevokeRequest.CertCenterOrderID = 1234, RevokeReason = [], Certificate = []\<rparr>)]
   \<and> url (after (Revoke (canned (Some ok_200, None)) (Some revoke_1234))) =
       ''https://api.certcenter.com/rest/v1/Revoke/1234''"
  using Revoke_serializes_CertCenterOrderID [of "canned (Some ok_200, None)" revoke_1234]
  by (simp add: revoke_1234_def fmt_d_1234)

lemma UpdateUser_clears_UsernameOrUserId:
  assumes "request req = Ptr_UpdateUserRequest (Some u)"
  shows "marshalled (events (do env ''User'' [CC_PARAM_TYPE_BODY OR CC_PARAM_TYPE_PATH] req)) =
     [Ptr_UpdateUserRequest (Some (u\<lparr>UserData.UsernameOrUserId := []\<rparr>))]"
  using assms
  by (simp add: do_shaped_marshalled do_shape_def case_BODY_PATH_def deref_UpdateUserRequest_def
      marshal_body_marshalled)

text \<open>
  Claim C7.  The operation name \<open>ApproverEmail\<close> is routed by the flags.  With PATH
  alone and a \<open>ResendApproverEmailRequest\<close>, \<open>do\<close> builds a POST to the endpoint followed
  by the order identifier; with QUERY\_STRING and PATH and a \<open>PutApproverEmailRequest\<close>,
  a PUT to the same path followed by \<open>?ApproverEmail=\<close> and the address.  Neither has a
  body, and each is the request sent once \<open>http.NewRequest\<close> accepts it.
\<close>

theorem ApproverEmail_routing:
  "(request req = Ptr_ResendApproverEmailRequest (Some r) \<longrightarrow>
      built (events (do env ''ApproverEmail'' [CC_PARAM_TYPE_PATH] req)) =
        [(''POST'', ''https://api.certcenter.com/rest/v1/ApproverEmail/'' @
             fmt_d (sint (ResendApproverEmailRequest.CertCenterOrderID r)), None)]
      \<and> (http_NewRequest env ''POST''
            (''https://api.certcenter.com/rest/v1/ApproverEmail/'' @
               fmt_d (sint (ResendApproverEmailRequest.CertCenterOrderID r))) None = None \<longrightarrow>
          sent (events (do env ''ApproverEmail'' [CC_PARAM_TYPE_PATH] req)) =
            [new_Request env ''POST''
               (''https://api.certcenter.com/rest/v1/ApproverEmail/'' @
                  fmt_d (sint (ResendApproverEmailRequest.CertCenterOrderID r))) None]))
   \<and> (request req = Ptr_PutApproverEmailRequest (Some r') \<longrightarrow>
      built (events (do env ''ApproverEmail'' [CC_PARAM_TYPE_QS OR CC_PARAM_TYPE_PATH] req)) =
        [(''PUT'', ''https://api.certcenter.com/rest/v1/ApproverEmail/'' @
             fmt_d (sint (PutApproverEmailRequest.CertCenterOrderID r')) @
             ''?ApproverEmail='' @ PutApproverEmailRequest.ApproverEmail r', None)]
      \<and> (http_NewRequest env ''PUT''
            (''https://api.certcenter.com/rest/v1/ApproverEmail/'' @
               fmt_d (sint (PutApproverEmailRequest.CertCenterOrderID r')) @
               ''?ApproverEmail='' @ PutApproverEmailRequest.ApproverEmail r') None = None \<longrightarrow>
          sent (events (do env ''ApproverEmail'' [CC_PARAM_TYPE_QS OR CC_PARAM_TYPE_PATH] req)) =
            [new_Request env ''PUT''
               (''https://api.certcenter.com/rest/v1/ApproverEmail/'' @
                  fmt_d (sint (PutApproverEmailRequest.CertCenterOrderID r')) @
                  ''?ApproverEmail='' @ PutApproverEmailRequest.ApproverEmail r') None]))"
proof (intro conjI impI)
  assume a: "request req = Ptr_ResendApproverEmailRequest (Some r)"
  let ?req = "req\<lparr>httpMethod := ''POST'', method := ''ApproverEmail'',
      url := ''https://api.certcenter.com/rest/v1/ApproverEmail/'' @
        fmt_d (sint (ResendApproverEmailRequest.CertCenterOrderID r)),
      client := Some new_Client\<rparr>"
  have s: "do_shape env ''ApproverEmail'' [CC_PARAM_TYPE_PATH] req = proceed ?req None []"
    using a
    by (simp add: do_shape_def case_PATH_def deref_ResendApproverEmailRequest_def rawURL_def)
  show "built (events (do env ''ApproverEmail'' [CC_PARAM_TYPE_PATH] req)) =
        [(''POST'', ''https://api.certcenter.com/rest/v1/ApproverEmail/'' @
             fmt_d (sint (ResendApproverEmailRequest.CertCenterOrderID r)), None)]"
    using do_proceeds_issue [OF s] by simp
  show "sent (events (do env ''ApproverEmail'' [CC_PARAM_TYPE_PATH] req)) =
            [new_Request env ''POST''
               (''https://api.certcenter.com/rest/v1/ApproverEmail/'' @
                  fmt_d (sint (ResendApproverEmailRequest.CertCenterOrderID r))) None]"
    if "http_NewRequest env ''POST''
            (''https://api.certcenter.com/rest/v1/ApproverEmail/'' @
               fmt_d (sint (ResendApproverEmailRequest.CertCenterOrderID r))) None = None"
    using do_proceeds_issue [OF s] that by simp
next
  assume a: "request req = Ptr_PutApproverEmailRequest (Some r')"
  let ?req = "req\<lparr>httpMethod := ''PUT'', method := ''ApproverEmail'',
      url := ''https://api.certcenter.com/rest/v1/ApproverEmail/'' @
        fmt_d (sint (PutApproverEmailRequest.CertCenterOrderID r')) @
             ''?ApproverEmail='' @ PutApproverEmailRequest.ApproverEmail r',
      client := Some new_Client\<rparr>"
  have s: "do_shape env ''ApproverEmail'' [CC_PARAM_TYPE_QS OR CC_PARAM_TYPE_PATH] req =
      proceed ?req None []"
    using a
    by (simp add: do_shape_def case_QS_PATH_def deref_PutApproverEmailRequest_def rawURL_def)
  show "built (events (do env ''ApproverEmail'' [CC_PARAM_TYPE_QS OR CC_PARAM_TYPE_PATH] req)) =
        [(''PUT'', ''https://api.certcenter.com/rest/v1/ApproverEmail/'' @
             fmt_d (sint (PutApproverEmailRequest.CertCenterOrderID r')) @
             ''?ApproverEmail='' @ PutApproverEmailRequest.ApproverEmail r', None)]"
    using do_proceeds_issue [OF s] by simp
  show "sent (events (do env ''ApproverEmail'' [CC_PARAM_TYPE_QS OR CC_PARAM_TYPE_PATH] req)) =
            [new_Request env ''PUT''
               (''https://api.certcenter.com/rest/v1/ApproverEmail/'' @
                  fmt_d (sint (PutApproverEmailRequest.CertCenterOrderID r')) @
                  ''?ApproverEmail='' @ PutApproverEmailRequest.ApproverEmail r') None]"
    if "http_NewRequest env ''PUT''
            (''https://api.certcenter.com/rest/v1/ApproverEmail/'' @
               fmt_d (sint (PutApproverEmailRequest.CertCenterOrderID r')) @
               ''?ApproverEmail='' @ PutApproverEmailRequest.ApproverEmail r') None = None"
    using do_proceeds_issue [OF s] that by simp
qed

theorem ApproverEmail_routing_witness:
  "request resend_apiRequest =
     Ptr_ResendApproverEmailRequest (Some resend_1234)
   \<and> built (events (do (canned (Some ok_200, None)) ''ApproverEmail'' [CC_PARAM_TYPE_PATH]
        resend_apiRequest)) =
       [(''POST'', ''https://api.certcenter.com/rest/v1/ApproverEmail/1234'', None)]
   \<and> request put_apiRequest =
     Ptr_PutApproverEmailRequest (Some put_1234)
   \<and> built (events (do (canned (Some ok_200, None)) ''ApproverEmail''
        [CC_PARAM_TYPE_QS OR CC_PARAM_TYPE_PATH]
        put_apiRequest)) =
       [(''PUT'', ''https://api.certcenter.com/rest/v1/ApproverEmail/1234?ApproverEmail=admin@example.com'', None)]"
proof -
  have h1: "request resend_apiRequest =
     Ptr_ResendApproverEmailRequest (Some resend_1234)"
    by (simp add: new_apiRequest_def resend_apiRequest_def)
  have h2: "request put_apiRequest =
     Ptr_PutApproverEmailRequest (Some put_1234)"
    by (simp add: new_apiRequest_def put_apiRequest_def)
  from h1 h2
    ApproverEmail_routing
      [of resend_apiRequest
        resend_1234 "canned (Some ok_200, None)" put_1234]
    ApproverEmail_routing
      [of put_apiRequest
        resend_1234 "canned (Some ok_200, None)" put_1234]
  show ?thesis
    by (simp add: resend_1234_def put_1234_def fmt_d_1234 new_apiRequest_def
        resend_apiRequest_def put_apiRequest_def)
qed

text \<open>
  Claim C8.  The operation name \<open>DeleteUser\<close> with the flag PATH and a
  \<open>DeleteUserRequest\<close> is sent to the \<open>User\<close> path: \<open>do\<close> builds a DELETE to
  \<open>https://api.certcenter.com/rest/v1/User/\<close> followed by \<open>UsernameOrUserId\<close>, without a
  body, and that is the request sent once \<open>http.NewRequest\<close> accepts it.
\<close>

theorem DeleteUser_routing:
  assumes "request req = Ptr_DeleteUserRequest (Some r)"
  shows "built (events (do env ''DeleteUser'' [CC_PARAM_TYPE_PATH] req)) =
       [(''DELETE'', ''https://api.certcenter.com/rest/v1/User/'' @
           DeleteUserRequest.UsernameOrUserId r, None)]
     \<and> (http_NewRequest env ''DELETE''
           (''https://api.certcenter.com/rest/v1/User/'' @ DeleteUserRequest.UsernameOrUserId r)
           None = None \<longrightarrow>
         sent (events (do env ''DeleteUser'' [CC_PARAM_TYPE_PATH] req)) =
           [new_Request env ''DELETE''
              (''https://api.certcenter.com/rest/v1/User/'' @ DeleteUserRequest.UsernameOrUserId r)
              None])"
proof -
  let ?req = "req\<lparr>httpMethod := ''DELETE'', method := ''DeleteUser'',
      url := ''https://api.certcenter.com/rest/v1/User/'' @ DeleteUserRequest.UsernameOrUserId r,
      client := Some new_Client\<rparr>"
  have "do_shape env ''DeleteUser'' [CC_PARAM_TYPE_PATH] req =
      proceed ?req None [Println (DeleteUserRequest.UsernameOrUserId r)]"
    using assms
    by (simp add: do_shape_def case_PATH_def deref_DeleteUserRequest_def rawURL_def)
  from do_proceeds_issue [OF this] show ?thesis
    by simp
qed

theorem DeleteUser_routing_witness:
  "request delete_apiRequest =
     Ptr_DeleteUserRequest (Some delete_jdoe)
   \<and> built (events (do (canned (Some ok_200, None)) ''DeleteUser'' [CC_PARAM_TYPE_PATH]
        delete_apiRequest)) =
       [(''DELETE'', ''https://api.certcenter.com/rest/v1/User/jdoe'', None)]
   \<and> sent (events (do (canned (Some ok_200, None)) ''DeleteUser'' [CC_PARAM_TYPE_PATH]
        delete_apiRequest)) =
       [\<lparr>Method = ''DELETE'', URL = ''https://api.certcenter.com/rest/v1/User/jdoe'',
         Payload = None,
         Header = [(''Authorization'', ''Bearer token''),
                   (''Content-Type'', ''application/json; charset=utf8'')]\<rparr>]"
proof -
  have h: "request delete_apiRequest =
     Ptr_DeleteUserRequest (Some delete_jdoe)"
    by (simp add: new_apiRequest_def delete_apiRequest_def)
  from h DeleteUser_routing [OF h, of "canned (Some ok_200, None)"] show ?thesis
    by (simp add: delete_jdoe_def canned_def new_Request_def)
qed

text \<open>
  Claim C9.  The specification expects every operation function to store a request of
  the type the dispatcher asserts.  \<open>VulnerabilityAssessmentRescan\<close> stores a
  \<open>*VulnerabilityAssessmentRescanRequest\<close>, and the PATH case for
  \<open>VulnerabilityAssessment\<close> asserts \<open>*VulnerabilityAssessmentRequest\<close>: every call, with
  whatever request, panics at the type assertion before any library call is made.  The
  calls of \<open>do\<close> made by the other operation functions that reach a type assertion
  on the request pass it (\<open>operations_pass_the_request_assertion\<close> below).
\<close>

theorem VulnerabilityAssessmentRescan_panics:
  "exit (VulnerabilityAssessmentRescan env ptr) = Panicked InterfaceConversion
   \<and> events (VulnerabilityAssessmentRescan env ptr) = []"
  by (simp add: VulnerabilityAssessmentRescan_def operation_def do_def do_shape_def
      case_PATH_def deref_VulnerabilityAssessmentRequest_def new_apiRequest_def Let_def)

theorem VulnerabilityAssessmentRescan_panics_witness:
  "exit (VulnerabilityAssessmentRescan (canned (Some ok_200, None)) (Some rescan_1234)) =
     Panicked InterfaceConversion
   \<and> events (VulnerabilityAssessmentRescan (canned (Some ok_200, None)) (Some rescan_1234)) = []"
  using VulnerabilityAssessmentRescan_panics [of "canned (Some ok_200, None)" "Some rescan_1234"]
  by simp

text \<open>
  The calls of \<open>do\<close> that the other operation functions make pass the type assertion of
  their case on the request, whatever request pointer the caller gives.
\<close>

lemma operations_pass_the_request_assertion:
  "exit (do env ''ApproverEmail'' [CC_PARAM_TYPE_QS OR CC_PARAM_TYPE_PATH]
     (new_apiRequest res (Ptr_PutApproverEmailRequest p1))) \<noteq> Panicked InterfaceConversion"
  "exit (do env ''ApproverEmail'' [CC_PARAM_TYPE_PATH]
     (new_apiRequest res (Ptr_ResendApproverEmailRequest p2))) \<noteq> Panicked InterfaceConversion"
  "exit (do env ''Order'' [CC_PARAM_TYPE_QS OR CC_PARAM_TYPE_PATH]
     (new_apiRequest res (Ptr_GetOrderRequest p3))) \<noteq> Panicked InterfaceConversion"
  "exit (do env ''Order'' [CC_PARAM_TYPE_PATH]
     (new_apiRequest res (Ptr_DeleteOrderRequest p4))) \<noteq> Panicked InterfaceConversion"
  "exit (do env ''Revoke'' [CC_PARAM_TYPE_BODY OR CC_PARAM_TYPE_PATH]
     (new_apiRequest res (Ptr_RevokeRequest p5))) \<noteq> Panicked InterfaceConversion"
proof -
  have n: "left (do_shape env m p req) \<noteq> Some (Panicked InterfaceConversion) \<Longrightarrow>
      exit (do env m p req) \<noteq> Panicked InterfaceConversion" for m p req
    using do_InterfaceConversion [of env m p req] by blast
  show "exit (do env ''ApproverEmail'' [CC_PARAM_TYPE_QS OR CC_PARAM_TYPE_PATH]
     (new_apiRequest res (Ptr_PutApproverEmailRequest p1))) \<noteq> Panicked InterfaceConversion"
    by (rule n)
      (simp add: do_shape_def case_QS_PATH_def deref_PutApproverEmailRequest_def
        new_apiRequest_def Let_def split: option.splits)
  show "exit (do env ''ApproverEmail'' [CC_PARAM_TYPE_PATH]
     (new_apiRequest res (Ptr_ResendApproverEmailRequest p2))) \<noteq> Panicked InterfaceConversion"
    by (rule n)
      (simp add: do_shape_def case_PATH_def deref_ResendApproverEmailRequest_def
        new_apiRequest_def Let_def split: option.splits)
  show "exit (do env ''Order'' [CC_PARAM_TYPE_QS OR CC_PARAM_TYPE_PATH]
     (new_apiRequest res (Ptr_GetOrderRequest p3))) \<noteq> Panicked InterfaceConversion"
    by (rule n)
      (simp add: do_shape_def case_QS_PATH_def deref_GetOrderRequest_def
        new_apiRequest_def Let_def split: option.splits sum.splits)
  show "exit (do env ''Order'' [CC_PARAM_TYPE_PATH]
     (new_apiRequest res (Ptr_DeleteOrderRequest p4))) \<noteq> Panicked InterfaceConversion"
    by (rule n)
      (simp add: do_shape_def case_PATH_def deref_DeleteOrderRequest_def
        new_apiRequest_def Let_def split: option.splits)
  show "exit (do env ''Revoke'' [CC_PARAM_TYPE_BODY OR CC_PARAM_TYPE_PATH]
     (new_apiRequest res (Ptr_RevokeRequest p5))) \<noteq> Panicked InterfaceConversion"
    by (rule n)
      (simp add: do_shape_def case_BODY_PATH_def deref_RevokeRequest_def marshal_body_def
        new_apiRequest_def Let_def split: option.splits sum.splits)
qed

text \<open>
  Claim C10, as amended.  When the first flag combination is none of the five cases of
  the switch, or is PATH or QUERY\_STRING with PATH and the operation name is none of the
  names listed in that case, \<open>do\<close> builds a GET to the bare endpoint URL of the
  operation, without query string and without body, and that is the request sent once
  \<open>http.NewRequest\<close> accepts it.  When the combination is BODY with PATH and the name is
  neither \<open>Revoke\<close> nor \<open>User\<close>, the request object is still handed to \<open>json.Marshal\<close>:
  its error is returned and no request is built, or its output is the body of the GET to
  the bare endpoint URL, which is sent once \<open>http.NewRequest\<close> accepts it.
\<close>

theorem do_unlisted_case:
  "((p \<noteq> CC_PARAM_TYPE_QS \<and> p \<noteq> CC_PARAM_TYPE_BODY \<and> p \<noteq> CC_PARAM_TYPE_PATH
         \<and> p \<noteq> CC_PARAM_TYPE_QS OR CC_PARAM_TYPE_PATH
         \<and> p \<noteq> CC_PARAM_TYPE_BODY OR CC_PARAM_TYPE_PATH)
      \<or> (p = CC_PARAM_TYPE_PATH
         \<and> apiMethod \<notin> set [''ApproverEmail'', ''Order'', ''VulnerabilityAssessment'', ''User'',
                            ''DeleteUser''])
      \<or> (p = CC_PARAM_TYPE_QS OR CC_PARAM_TYPE_PATH
         \<and> apiMethod \<notin> set [''ApproverEmail'', ''Order''])
    \<longrightarrow> built (events (do env apiMethod (p # ps) req)) =
          [(''GET'', ''https://api.certcenter.com/rest/v1/'' @ apiMethod, None)]
      \<and> (http_NewRequest env ''GET'' (''https://api.certcenter.com/rest/v1/'' @ apiMethod) None
           = None \<longrightarrow>
         sent (events (do env apiMethod (p # ps) req)) =
           [new_Request env ''GET'' (''https://api.certcenter.com/rest/v1/'' @ apiMethod) None]))
   \<and> (p = CC_PARAM_TYPE_BODY OR CC_PARAM_TYPE_PATH \<and> apiMethod \<notin> set [''Revoke'', ''User'']
    \<longrightarrow> marshalled (events (do env apiMethod (p # ps) req)) = [request req]
      \<and> (case json_Marshal env (request req) of
           Inl e \<Rightarrow>
             exit (do env apiMethod (p # ps) req) = Returned (Some e)
             \<and> built (events (do env apiMethod (p # ps) req)) = []
         | Inr d \<Rightarrow>
             built (events (do env apiMethod (p # ps) req)) =
               [(''GET'', ''https://api.certcenter.com/rest/v1/'' @ apiMethod, Some d)]
             \<and> (http_NewRequest env ''GET''
                   (''https://api.certcenter.com/rest/v1/'' @ apiMethod) (Some d) = None \<longrightarrow>
                 sent (events (do env apiMethod (p # ps) req)) =
                   [new_Request env ''GET''
                      (''https://api.certcenter.com/rest/v1/'' @ apiMethod) (Some d)])))"
proof (intro conjI impI)
  assume a: "(p \<noteq> CC_PARAM_TYPE_QS \<and> p \<noteq> CC_PARAM_TYPE_BODY \<and> p \<noteq> CC_PARAM_TYPE_PATH
         \<and> p \<noteq> CC_PARAM_TYPE_QS OR CC_PARAM_TYPE_PATH
         \<and> p \<noteq> CC_PARAM_TYPE_BODY OR CC_PARAM_TYPE_PATH)
      \<or> (p = CC_PARAM_TYPE_PATH
         \<and> apiMethod \<notin> set [''ApproverEmail'', ''Order'', ''VulnerabilityAssessment'', ''User'',
                            ''DeleteUser''])
      \<or> (p = CC_PARAM_TYPE_QS OR CC_PARAM_TYPE_PATH
         \<and> apiMethod \<notin> set [''ApproverEmail'', ''Order''])"
  note s = do_shape_unlisted [OF a, of env ps req]
  show "built (events (do env apiMethod (p # ps) req)) =
          [(''GET'', ''https://api.certcenter.com/rest/v1/'' @ apiMethod, None)]"
    using do_proceeds_issue [OF s] by simp
  show "sent (events (do env apiMethod (p # ps) req)) =
           [new_Request env ''GET'' (''https://api.certcenter.com/rest/v1/'' @ apiMethod) None]"
    if "http_NewRequest env ''GET'' (''https://api.certcenter.com/rest/v1/'' @ apiMethod) None
           = None"
    using do_proceeds_issue [OF s] that by simp
next
  assume a: "p = CC_PARAM_TYPE_BODY OR CC_PARAM_TYPE_PATH
    \<and> apiMethod \<notin> set [''Revoke'', ''User'']"
  let ?req = "req\<lparr>httpMethod := ''GET'', method := apiMethod,
                  url := ''https://api.certcenter.com/rest/v1/'' @ apiMethod,
                  client := Some new_Client\<rparr>"
  from a have s: "do_shape env apiMethod (p # ps) req = marshal_body env ?req"
    by (intro do_shape_unlisted_BODY_PATH) simp_all
  show "marshalled (events (do env apiMethod (p # ps) req)) = [request req]"
    by (simp add: do_shaped_marshalled s marshal_body_marshalled)
  show "case json_Marshal env (request req) of
           Inl e \<Rightarrow>
             exit (do env apiMethod (p # ps) req) = Returned (Some e)
             \<and> built (events (do env apiMethod (p # ps) req)) = []
         | Inr d \<Rightarrow>
             built (events (do env apiMethod (p # ps) req)) =
               [(''GET'', ''https://api.certcenter.com/rest/v1/'' @ apiMethod, Some d)]
             \<and> (http_NewRequest env ''GET''
                   (''https://api.certcenter.com/rest/v1/'' @ apiMethod) (Some d) = None \<longrightarrow>
                 sent (events (do env apiMethod (p # ps) req)) =
                   [new_Request env ''GET''
                      (''https://api.certcenter.com/rest/v1/'' @ apiMethod) (Some d)])"
  proof (cases "json_Marshal env (request req)")
    case (Inl e)
    then have "do_shape env apiMethod (p # ps) req =
        leave (Returned (Some e)) ?req [JsonMarshal (request req)]"
      by (simp add: s marshal_body_def)
    from do_leaves [OF this] Inl show ?thesis by simp
  next
    case (Inr d)
    then have "do_shape env apiMethod (p # ps) req =
        proceed ?req (Some d) [JsonMarshal (request req)]"
      by (simp add: s marshal_body_def)
    from do_proceeds_issue [OF this] Inr show ?thesis by simp
  qed
qed

theorem do_unlisted_case_witness:
  "(CC_PARAM_TYPE_QS OR CC_PARAM_TYPE_BODY \<noteq> CC_PARAM_TYPE_QS
      \<and> CC_PARAM_TYPE_QS OR CC_PARAM_TYPE_BODY \<noteq> CC_PARAM_TYPE_BODY
      \<and> CC_PARAM_TYPE_QS OR CC_PARAM_TYPE_BODY \<noteq> CC_PARAM_TYPE_PATH
      \<and> CC_PARAM_TYPE_QS OR CC_PARAM_TYPE_BODY \<noteq> CC_PARAM_TYPE_QS OR CC_PARAM_TYPE_PATH
      \<and> CC_PARAM_TYPE_QS OR CC_PARAM_TYPE_BODY \<noteq> CC_PARAM_TYPE_BODY OR CC_PARAM_TYPE_PATH)
   \<and> built (events (do (canned (Some ok_200, None)) ''Reissue''
        [CC_PARAM_TYPE_QS OR CC_PARAM_TYPE_BODY] reissue_request)) =
       [(''GET'', ''https://api.certcenter.com/rest/v1/Reissue'', None)]
   \<and> ''Reissue'' \<notin> set [''Revoke'', ''User'']
   \<and> marshalled (events (do (canned (Some ok_200, None)) ''Reissue''
        [CC_PARAM_TYPE_BODY OR CC_PARAM_TYPE_PATH] reissue_request)) =
       [Ptr_Other ''ReissueRequest'']
   \<and> built (events (do (canned (Some ok_200, None)) ''Reissue''
        [CC_PARAM_TYPE_BODY OR CC_PARAM_TYPE_PATH] reissue_request)) =
       [(''GET'', ''https://api.certcenter.com/rest/v1/Reissue'', Some ''{}'')]"
  using
    do_unlisted_case [of "CC_PARAM_TYPE_QS OR CC_PARAM_TYPE_BODY" "''Reissue''"
      "canned (Some ok_200, None)" "[]" reissue_request]
    do_unlisted_case [of "CC_PARAM_TYPE_BODY OR CC_PARAM_TYPE_PATH" "''Reissue''"
      "canned (Some ok_200, None)" "[]" reissue_request]
  by (simp add: reissue_request_def new_apiRequest_def canned_def)

text \<open>
  Claim C10 as the specification states it, no body whenever the operation name is none
  of the listed ones, fails for BODY with PATH: the request sent for \<open>Reissue\<close> is a GET
  with a body.
\<close>

theorem do_unlisted_BODY_PATH_counterexample:
  "CC_PARAM_TYPE_BODY OR CC_PARAM_TYPE_PATH = 6 \<and> ''Reissue'' \<notin> set [''Revoke'', ''User'']
   \<and> sent (events (do (canned (Some ok_200, None)) ''Reissue''
        [CC_PARAM_TYPE_BODY OR CC_PARAM_TYPE_PATH] reissue_request)) =
       [\<lparr>Method = ''GET'', URL = ''https://api.certcenter.com/rest/v1/Reissue'',
         Payload = Some ''{}'',
         Header = [(''Authorization'', ''Bearer token''),
                   (''Content-Type'', ''application/json; charset=utf8'')]\<rparr>]"
proof -
  have "do_shape (canned (Some ok_200, None)) ''Reissue'' [6] reissue_request =
     proceed (reissue_request\<lparr>httpMethod := ''GET'', method := ''Reissue'',
                  url := ''https://api.certcenter.com/rest/v1/Reissue'',
                  client := Some new_Client\<rparr>) (Some ''{}'')
       [JsonMarshal (request reissue_request)]"
    by (simp add: do_shape_def case_BODY_PATH_def marshal_body_def rawURL_def canned_def)
  from do_proceeds_issue [OF this] show ?thesis
    by (simp add: canned_def new_Request_def)
qed

end
